theory Spec2Isabelle
  imports Main
begin

section \<open>JavaScript values and strings\<close>

text \<open>
  A value that JavaScript code throws, or that a promise rejects with: an \<open>Error\<close>
  object (its \<open>name\<close> and its \<open>message\<close>), or a value that is not an
  \<open>Error\<close>, such as the string a stream reader is cancelled with.
\<close>

datatype thrown = JsError string string | JsValue string

text \<open>
  A call that may throw returns \<open>Inl\<close> the thrown value or \<open>Inr\<close> its result.
\<close>

type_synonym 'a result = "thrown + 'a"

text \<open>\<^verbatim>\<open>error instanceof Error ? error.message : String(error)\<close>\<close>

fun error_message :: "thrown \<Rightarrow> string" where
  "error_message (JsError name message) = message"
| "error_message (JsValue s) = s"

text \<open>
  Text is a list of code units below 256. \<^verbatim>\<open>String.prototype.trim\<close> strips the
  white space and line terminators of ECMAScript; those below 256 are TAB, LF, VT, FF,
  CR, SPACE and NBSP.
\<close>

definition is_js_space :: "char \<Rightarrow> bool" where
  "is_js_space c = (c = CHR 0x09 \<or> c = CHR 0x0A \<or> c = CHR 0x0B \<or> c = CHR 0x0C
     \<or> c = CHR 0x0D \<or> c = CHR 0x20 \<or> c = CHR 0xA0)"

definition js_trim :: "string \<Rightarrow> string" where
  "js_trim s = rev (dropWhile is_js_space (rev (dropWhile is_js_space s)))"

text \<open>\<^verbatim>\<open>s.startsWith(p)\<close>\<close>

definition startsWith :: "string \<Rightarrow> string \<Rightarrow> bool" where
  "startsWith s p = (take (length p) s = p)"

text \<open>
  \<^verbatim>\<open>s.split("\n")\<close>: the pieces between line feeds; always at least one piece, the
  last one being what follows the last line feed.
\<close>

fun split_nl :: "string \<Rightarrow> string list" where
  "split_nl [] = [[]]"
| "split_nl (c # cs) =
     (if c = CHR 0x0A then [] # split_nl cs
      else (case split_nl cs of [] \<Rightarrow> [[c]] | l # ls \<Rightarrow> (c # l) # ls))"

text \<open>The decimal digits of a number inside a template literal.\<close>

definition digit_char :: "nat \<Rightarrow> char" where
  "digit_char d =
     (if d = 0 then CHR ''0'' else if d = 1 then CHR ''1'' else if d = 2 then CHR ''2''
      else if d = 3 then CHR ''3'' else if d = 4 then CHR ''4'' else if d = 5 then CHR ''5''
      else if d = 6 then CHR ''6'' else if d = 7 then CHR ''7'' else if d = 8 then CHR ''8''
      else CHR ''9'')"

fun dec :: "nat \<Rightarrow> string" where
  "dec n = (if n < 10 then [digit_char n] else dec (n div 10) @ [digit_char (n mod 10)])"

declare dec.simps [simp del]

section \<open>The event-stream decoder (\<^verbatim>\<open>GeminiApiClient.parseSSEStream\<close>)\<close>

text \<open>
  The class \<^verbatim>\<open>GeminiApiClient\<close> is the file \<^verbatim>\<open>unnamed/part_006\<close>; the line
  numbers given for it are those of that file.
\<close>

text \<open>
  The reader of the response body, after \<^verbatim>\<open>TextDecoderStream\<close>: the texts of the
  successive reads that deliver a value, and how the stream ends, with \<open>done\<close> or with
  a read that rejects.
\<close>

datatype stream_end = Done | ReadRejects thrown

text \<open>
  What a generator gives its consumer: the values it yields, in order, and the value it
  throws at the end, if it throws.
\<close>

type_synonym 'a generated = "'a list \<times> thrown option"

text \<open>
  The \<^verbatim>\<open>try { yield JSON.parse(objectBuffer) } catch (e) { console.error(...) }\<close> of lines
  109-113 and 125-129, under \<^verbatim>\<open>if (objectBuffer)\<close>. \<^verbatim>\<open>JSON.parse\<close> is the
  runtime's: it is a parameter, \<open>None\<close> where it throws.
\<close>

definition flush_object :: "(string \<Rightarrow> 'j option) \<Rightarrow> string \<Rightarrow> 'j list" where
  "flush_object JSON_parse objectBuffer =
     (if objectBuffer \<noteq> [] then
        (case JSON_parse objectBuffer of Some v \<Rightarrow> [v] | None \<Rightarrow> [])
      else [])"

text \<open>
  The \<^verbatim>\<open>for (const line of lines)\<close> loop of lines 122-135: the values it yields and
  \<open>objectBuffer\<close> after it.
\<close>

fun process_lines :: "(string \<Rightarrow> 'j option) \<Rightarrow> string list \<Rightarrow> string \<Rightarrow> 'j list \<times> string" where
  "process_lines JSON_parse [] objectBuffer = ([], objectBuffer)"
| "process_lines JSON_parse (line # lines) objectBuffer =
     (if js_trim line = [] then
        (if objectBuffer \<noteq> [] then
           (let (ys, ob) = process_lines JSON_parse lines []
            in (flush_object JSON_parse objectBuffer @ ys, ob))
         else process_lines JSON_parse lines objectBuffer)
      else if startsWith line ''data: '' then
        process_lines JSON_parse lines (objectBuffer @ drop 6 line)
      else process_lines JSON_parse lines objectBuffer)"

text \<open>
  The \<^verbatim>\<open>while (true)\<close> loop of lines 85-136, from the state \<open>buffer\<close>,
  \<open>objectBuffer\<close>. A read that rejects with the string \<^verbatim>\<open>"IdleTimeout"\<close> is
  rethrown as an \<open>Error\<close> (lines 96-100); \<open>idleTimeoutMs\<close> is the optional parameter
  of the method, printed in that message.
\<close>

definition idle_timeout_error :: "nat option \<Rightarrow> thrown" where
  "idle_timeout_error idleTimeoutMs =
     JsError ''Error'' (''Stream idle timeout after ''
       @ (case idleTimeoutMs of None \<Rightarrow> ''undefined'' | Some n \<Rightarrow> dec n) @ ''ms'')"

fun read_loop ::
  "(string \<Rightarrow> 'j option) \<Rightarrow> nat option \<Rightarrow> string list \<Rightarrow> stream_end \<Rightarrow> string \<Rightarrow> string
     \<Rightarrow> 'j generated" where
  "read_loop JSON_parse idleTimeoutMs [] Done buffer objectBuffer =
     (flush_object JSON_parse objectBuffer, None)"
| "read_loop JSON_parse idleTimeoutMs [] (ReadRejects e) buffer objectBuffer =
     ([], Some (if e = JsValue ''IdleTimeout'' then idle_timeout_error idleTimeoutMs else e))"
| "read_loop JSON_parse idleTimeoutMs (v # reads) fin buffer objectBuffer =
     (let lines = split_nl (buffer @ v);
          (ys, ob) = process_lines JSON_parse (butlast lines) objectBuffer;
          (zs, r) = read_loop JSON_parse idleTimeoutMs reads fin (last lines) ob
      in (ys @ zs, r))"

definition parseSSEStream ::
  "(string \<Rightarrow> 'j option) \<Rightarrow> nat option \<Rightarrow> string list \<Rightarrow> stream_end \<Rightarrow> 'j generated" where
  "parseSSEStream JSON_parse idleTimeoutMs reads fin =
     read_loop JSON_parse idleTimeoutMs reads fin [] []"


subsection \<open>The idle timer (lines 86-103)\<close>

text \<open>
  Before each read the loop arms a timer of \<open>idleTimeoutMs\<close> (when that is given and
  not 0), and clears it when the read has settled. A stream in time is the texts of its
  reads, each with the milliseconds the read takes to settle, and its end with the
  milliseconds it takes to come. When a read takes longer than the timer, the timer
  fires first and calls \<^verbatim>\<open>reader.cancel("IdleTimeout")\<close>. By the Streams standard,
  cancelling a reader closes its stream (ReadableStreamCancel performs
  ReadableStreamClose), and closing resolves every pending read request with
  \<^verbatim>\<open>{value: undefined, done: true}\<close>: the pending read of line 95 does not reject.
  \<open>reader_results\<close> is what the reads of the loop give on such a stream.
\<close>

definition idle_timer_fires :: "nat option \<Rightarrow> nat \<Rightarrow> bool" where
  "idle_timer_fires idleTimeoutMs delay =
     (case idleTimeoutMs of None \<Rightarrow> False | Some t \<Rightarrow> t \<noteq> 0 \<and> t < delay)"

fun reader_results :: "nat option \<Rightarrow> (nat \<times> string) list \<Rightarrow> nat \<times> stream_end
    \<Rightarrow> string list \<times> stream_end" where
  "reader_results idleTimeoutMs [] (delay, fin) =
     ([], if idle_timer_fires idleTimeoutMs delay then Done else fin)"
| "reader_results idleTimeoutMs ((delay, v) # timed) ending =
     (if idle_timer_fires idleTimeoutMs delay then ([], Done)
      else (case reader_results idleTimeoutMs timed ending of (vs, fin) \<Rightarrow> (v # vs, fin)))"

text \<open>The decoder on a stream in time.\<close>

definition parseSSEStream_in_time ::
  "(string \<Rightarrow> 'j option) \<Rightarrow> nat option \<Rightarrow> (nat \<times> string) list \<Rightarrow> nat \<times> stream_end
     \<Rightarrow> 'j generated" where
  "parseSSEStream_in_time JSON_parse idleTimeoutMs timed ending =
     (case reader_results idleTimeoutMs timed ending of
        (reads, fin) \<Rightarrow> parseSSEStream JSON_parse idleTimeoutMs reads fin)"

section \<open>Numbers, JSON values and model ids\<close>

subsection \<open>Numbers\<close>

text \<open>
  A JavaScript number is a double. The client computes with token counts only, which are
  whole numbers. Here a number is a whole number \<open>Finite k\<close> (for a \<open>k\<close> that is a
  double; the two zeros are not told apart), an infinity, or \<open>NaN\<close>. A number with a
  fraction is outside this model.
\<close>

datatype number = Finite int | PlusInfinity | MinusInfinity | NaN

text \<open>
  The double nearest to a whole number. A double has a significand of 53 bits:
  \<open>excess_bits n\<close> is the number of low bits of \<open>n\<close> beyond these, and
  \<open>nearest n k\<close> rounds \<open>n\<close> to a multiple of \<open>2 ^ k\<close>, a tie going to the even
  significand. What is rounded to \<open>2 ^ 1024\<close> or more is an infinity.
\<close>

function excess_bits :: "nat \<Rightarrow> nat" where
  "excess_bits n = (if n < 2 ^ 53 then 0 else Suc (excess_bits (n div 2)))"
  by pat_completeness auto
termination
  by (relation "measure id") auto

declare excess_bits.simps [simp del]

definition nearest :: "nat \<Rightarrow> nat \<Rightarrow> nat" where
  "nearest n k =
     (let q = n div 2 ^ k; r = n mod 2 ^ k
      in (if 2 * r > 2 ^ k \<or> (2 * r = 2 ^ k \<and> odd q) then q + 1 else q) * 2 ^ k)"

definition to_double :: "int \<Rightarrow> number" where
  "to_double x =
     (let n = nat \<bar>x\<bar>; m = nearest n (excess_bits n)
      in if m < 2 ^ 1024 then Finite (if x < 0 then - int m else int m)
         else if x < 0 then MinusInfinity else PlusInfinity)"

text \<open>\<^verbatim>\<open>a + b\<close> on two numbers: the double nearest to the exact sum.\<close>

fun js_add :: "number \<Rightarrow> number \<Rightarrow> number" where
  "js_add (Finite a) (Finite b) = to_double (a + b)"
| "js_add NaN b = NaN"
| "js_add a NaN = NaN"
| "js_add PlusInfinity MinusInfinity = NaN"
| "js_add MinusInfinity PlusInfinity = NaN"
| "js_add PlusInfinity b = PlusInfinity"
| "js_add a PlusInfinity = PlusInfinity"
| "js_add MinusInfinity b = MinusInfinity"
| "js_add a MinusInfinity = MinusInfinity"

text \<open>\<^verbatim>\<open>x || 0\<close> on an optional number: \<open>undefined\<close>, \<open>NaN\<close> and zero are falsy.\<close>

fun or_zero :: "number option \<Rightarrow> number" where
  "or_zero None = Finite 0"
| "or_zero (Some NaN) = Finite 0"
| "or_zero (Some x) = x"

subsection \<open>JSON values\<close>

text \<open>
  A value as \<^verbatim>\<open>JSON.parse\<close> returns it. The client never computes with a number of a
  request: it is kept as the text \<^verbatim>\<open>String\<close> makes of it. An object is the list of
  its own properties in the order of \<^verbatim>\<open>Object.entries\<close>; their names are distinct,
  and none is \<^verbatim>\<open>__proto__\<close> (an assignment to that name would set the prototype of
  the object assigned to: such objects are outside this model). A property that is
  \<open>undefined\<close> is left out, as \<^verbatim>\<open>JSON.stringify\<close> leaves it out of the body of
  the POST, which is all that becomes of the objects built here.
\<close>

datatype json =
    JNull
  | JBool bool
  | JNumber string
  | JString string
  | JArray "json list"
  | JObject "(string \<times> json) list"

fun json_truthy :: "json \<Rightarrow> bool" where
  "json_truthy JNull = False"
| "json_truthy (JBool b) = b"
| "json_truthy (JNumber s) = (s \<noteq> ''0'' \<and> s \<noteq> ''NaN'')"
| "json_truthy (JString s) = (s \<noteq> [])"
| "json_truthy (JArray xs) = True"
| "json_truthy (JObject kvs) = True"

text \<open>Truthiness of what a property read gives: \<open>None\<close> is \<open>undefined\<close>.\<close>

fun truthy_value :: "json option \<Rightarrow> bool" where
  "truthy_value None = False"
| "truthy_value (Some v) = json_truthy v"

text \<open>
  \<^verbatim>\<open>v.k\<close> on a value that is not null, for a name \<open>k\<close> that no built-in prototype
  defines (such are all the names the client reads).
\<close>

fun member :: "json \<Rightarrow> string \<Rightarrow> json option" where
  "member (JObject kvs) k = map_of kvs k"
| "member v k = None"

text \<open>
  \<^verbatim>\<open>Object.entries(v)\<close> on a value that is not null: the properties of an object, the
  elements of an array and the code units of a string under their indices, and nothing
  for a number or a boolean.
\<close>

fun entries :: "json \<Rightarrow> (string \<times> json) list" where
  "entries (JObject kvs) = kvs"
| "entries (JArray xs) = zip (map dec [0..<length xs]) xs"
| "entries (JString s) = zip (map dec [0..<length s]) (map (\<lambda>c. JString [c]) s)"
| "entries v = []"

text \<open>
  \<^verbatim>\<open>o[k] = v\<close> on the properties of an object: an existing property keeps its place,
  a new one comes last.
\<close>

fun put :: "(string \<times> json) list \<Rightarrow> string \<Rightarrow> json \<Rightarrow> (string \<times> json) list" where
  "put [] k v = [(k, v)]"
| "put ((k', v') # kvs) k v = (if k' = k then (k, v) # kvs else (k', v') # put kvs k v)"

text \<open>The properties of an object literal, those with an \<open>undefined\<close> value left out.\<close>

fun present :: "(string \<times> json option) list \<Rightarrow> (string \<times> json) list" where
  "present [] = []"
| "present ((k, None) # kvs) = present kvs"
| "present ((k, Some v) # kvs) = (k, v) # present kvs"

text \<open>
  \<^verbatim>\<open>xs.map(f)\<close> for an \<open>f\<close> that may throw: the first element on which \<open>f\<close>
  throws ends the loop.
\<close>

fun first_failure :: "'a result list \<Rightarrow> 'a list result" where
  "first_failure [] = Inr []"
| "first_failure (Inl err # rs) = Inl err"
| "first_failure (Inr x # rs) =
     (case first_failure rs of Inl err \<Rightarrow> Inl err | Inr xs \<Rightarrow> Inr (x # xs))"

text \<open>
  \<^verbatim>\<open>String.prototype.toLowerCase\<close> on code units below 256: the capital letters
  are \<open>A\<close> to \<open>Z\<close> and \<open>0xC0\<close> to \<open>0xDE\<close> without \<open>0xD7\<close>; the
  small letter of each is 32 further.
\<close>

definition capital_letters :: string where
  "capital_letters =
     ''ABCDEFGHIJKLMNOPQRSTUVWXYZ'' @
       [CHR 0xC0, CHR 0xC1, CHR 0xC2, CHR 0xC3, CHR 0xC4, CHR 0xC5, CHR 0xC6, CHR 0xC7,
        CHR 0xC8, CHR 0xC9, CHR 0xCA, CHR 0xCB, CHR 0xCC, CHR 0xCD, CHR 0xCE, CHR 0xCF,
        CHR 0xD0, CHR 0xD1, CHR 0xD2, CHR 0xD3, CHR 0xD4, CHR 0xD5, CHR 0xD6, CHR 0xD8,
        CHR 0xD9, CHR 0xDA, CHR 0xDB, CHR 0xDC, CHR 0xDD, CHR 0xDE]"

definition small_letters :: string where
  "small_letters =
     ''abcdefghijklmnopqrstuvwxyz'' @
       [CHR 0xE0, CHR 0xE1, CHR 0xE2, CHR 0xE3, CHR 0xE4, CHR 0xE5, CHR 0xE6, CHR 0xE7,
        CHR 0xE8, CHR 0xE9, CHR 0xEA, CHR 0xEB, CHR 0xEC, CHR 0xED, CHR 0xEE, CHR 0xEF,
        CHR 0xF0, CHR 0xF1, CHR 0xF2, CHR 0xF3, CHR 0xF4, CHR 0xF5, CHR 0xF6, CHR 0xF8,
        CHR 0xF9, CHR 0xFA, CHR 0xFB, CHR 0xFC, CHR 0xFD, CHR 0xFE]"

definition lower_char :: "char \<Rightarrow> char" where
  "lower_char c = (case map_of (zip capital_letters small_letters) c of Some l \<Rightarrow> l | None \<Rightarrow> c)"

definition toLowerCase :: "string \<Rightarrow> string" where
  "toLowerCase s = map lower_char s"

subsection \<open>Model ids\<close>

text \<open>
  A model id is a string. Where the code takes one from
  \<^verbatim>\<open>AUTO_SWITCH_MODEL_MAP[originalModel]\<close> it may also get a property that the map, an
  object literal, inherits from \<^verbatim>\<open>Object.prototype\<close>: a function or, for
  \<^verbatim>\<open>__proto__\<close>, the prototype itself. Such a value is kept by the name of the
  property.
\<close>

datatype model_value = Model string | Inherited string

section \<open>Credentials and their store (\<^verbatim>\<open>AuthManager\<close>)\<close>

text \<open>
  The class \<^verbatim>\<open>AuthManager\<close> stands in \<^verbatim>\<open>src/constants.ts\<close>, after the
  constants; the line numbers given for it are those of that file. Its records and
  \<^verbatim>\<open>OAuth2Credentials\<close> of \<^verbatim>\<open>types.ts\<close> follow. Times are epoch milliseconds.
  Of \<^verbatim>\<open>OAuth2Credentials\<close> only the three fields the code reads are kept
  (\<open>scope\<close>, \<open>token_type\<close> and \<open>id_token\<close> are never read).
\<close>

record CachedTokenData =
  access_token :: string
  refresh_token :: "string option"
  expiry_date :: int
  cached_at :: int

record OAuth2Credentials =
  cred_access_token :: string
  cred_refresh_token :: string
  cred_expiry_date :: int

record TokenRefreshResponse =
  new_access_token :: string
  expires_in :: int
  new_refresh_token :: "string option"

record ProjectDiscoveryResponse =
  cloudaicompanionProject :: "string option"

text \<open>
  \<^verbatim>\<open>process.env.GCP_SERVICE_ACCOUNT\<close>: not set (undefined or the empty string), or
  set to a text, given by what \<^verbatim>\<open>JSON.parse\<close> makes of it: the value it throws
  or the credentials it returns.
\<close>

datatype service_account = NotSet | SetTo "OAuth2Credentials result"

text \<open>
  The file \<^verbatim>\<open>/app/data/token-cache.json\<close>: absent, present with a content that
  cannot be read back as a token (as the empty content \<^verbatim>\<open>clearTokenCache\<close> leaves),
  or holding a cached token.
\<close>

datatype token_file = Absent | Unreadable | Stored CachedTokenData

text \<open>
  What the refresh endpoint answers to one POST: the fetch (or the reading of the
  answer's JSON) throws, the answer is not ok and has the given text, or it is ok and
  holds the given data.
\<close>

datatype refresh_reply =
    RefreshFetchRejects thrown
  | RefreshNotOk string
  | RefreshOk TokenRefreshResponse

text \<open>
  What the Code Assist endpoint answers to one \<^verbatim>\<open>callEndpoint\<close> POST: the fetch
  rejects, or there is a response with its status, its \<^verbatim>\<open>text()\<close> and its
  \<^verbatim>\<open>json()\<close>.
\<close>

datatype call_reply =
    CallFetchRejects thrown
  | CallResponse nat string "ProjectDiscoveryResponse result"

text \<open>
  What the streaming endpoint answers to one POST: the fetch rejects, or there is a
  response with its status, its body (\<^verbatim>\<open>response.body\<close> is null, or a stream: what
  the reads of the decoder's loop give, see \<open>reader_results\<close>) and the time in
  milliseconds from the response to the moment the attempt is done with it. The error
  text of a response that is not ok is only logged (line 434).
\<close>

datatype response_body = NoBody | Body "string list" stream_end

datatype stream_reply =
    StreamFetchRejects thrown
  | StreamResponse nat response_body nat

section \<open>Chunks and upstream events\<close>

text \<open>
  A part is kept as its text when it is a plain \<^verbatim>\<open>{text: ...}\<close> object, and as its
  JSON text otherwise: the client never looks inside a part.
\<close>

datatype part = TextPart string | OtherPart string

record content =
  role :: string
  parts :: "part list"

record candidate =
  content :: content
  finishReason :: "string option"
  groundingMetadata :: "string option"

record usageMetadata =
  promptTokenCount :: number
  candidatesTokenCount :: number
  totalTokenCount :: number

text \<open>\<^verbatim>\<open>GeminiNativeResponse\<close> and \<^verbatim>\<open>GeminiNativeStreamChunk\<close>.\<close>

record GeminiNativeResponse =
  candidates :: "candidate list"
  usageMetadata :: "usageMetadata option"
  modelVersion :: model_value

record GeminiNativeStreamChunk =
  chunk_type :: string
  data :: GeminiNativeResponse

text \<open>
  A decoded event, as far as \<^verbatim>\<open>performNativeStreamRequest\<close> reads it. A field is
  \<open>None\<close> when it is missing, null or otherwise falsy; \<open>up_parts\<close> is
  \<^verbatim>\<open>candidate.content?.parts\<close>. A token count is a number or missing. A payload
  on which these reads throw
  (\<^verbatim>\<open>null\<close>, of which \<^verbatim>\<open>jsonData.response\<close> throws a \<open>TypeError\<close>; candidates
  that are no array) is apart, with what they throw.
\<close>

record upstream_candidate =
  up_parts :: "part list option"
  up_finishReason :: "string option"
  up_groundingMetadata :: "string option"

record upstream_usage =
  up_promptTokenCount :: "number option"
  up_candidatesTokenCount :: "number option"
  up_totalTokenCount :: "number option"

record upstream_response =
  up_candidates :: "upstream_candidate list option"
  up_usageMetadata :: "upstream_usage option"

datatype event = BadPayload thrown | Payload "upstream_response option"

text \<open>
  \<^verbatim>\<open>GeminiNativeRequest\<close>, the request of a caller, by the properties the client reads
  (the interface is declared in \<^verbatim>\<open>types/gemini-native\<close>, which is not among the
  sources). \<open>contents\<close>, \<open>tools\<close> and \<open>safetySettings\<close> are arrays; a property
  is \<open>None\<close> when the request does not have it.
\<close>

record GeminiNativeRequest =
  contents :: "json list option"
  systemInstruction :: "json option"
  generationConfig :: "json option"
  tools :: "json list option"
  toolConfig :: "json option"
  safetySettings :: "json list option"

text \<open>
  The object a streaming attempt posts (lines 358-364); \<open>request\<close> is the object
  \<^verbatim>\<open>buildNativeStreamRequest\<close> builds. (Of a \<open>model\<close> that is no string,
  \<^verbatim>\<open>JSON.stringify\<close> writes nothing into the body.)
\<close>

record stream_request =
  model :: model_value
  project :: string
  request :: json

section \<open>The environment and the state\<close>

text \<open>
  What the code is run in. \<^verbatim>\<open>TOKEN_BUFFER_TIME\<close> is a constant of \<^verbatim>\<open>config.ts\<close>,
  which is not among the sources: it is a parameter. Each endpoint answers its \<open>n\<close>-th
  request (counted from 0) after a latency in milliseconds. \<open>storage_writable\<close> tells
  whether \<^verbatim>\<open>Bun.write\<close> succeeds. \<open>JSON_parse\<close> is the runtime's parser, read
  through the fields the client looks at. Two texts are the runtime's:
  \<open>type_error_message\<close> gives the message of the \<open>TypeError\<close> thrown where the
  given expression reads a property of \<open>undefined\<close> or \<open>null\<close>, and
  \<open>inherited_text\<close> gives what a template literal makes of the property of the given
  name that an object literal inherits.
\<close>

record env =
  GCP_SERVICE_ACCOUNT :: service_account
  GEMINI_PROJECT_ID :: "string option"
  ENABLE_AUTO_MODEL_SWITCHING :: "string option"
  TOKEN_BUFFER_TIME :: int
  storage_writable :: bool
  oauth_endpoint :: "nat \<Rightarrow> nat \<times> refresh_reply"
  call_endpoint :: "nat \<Rightarrow> nat \<times> call_reply"
  stream_endpoint :: "nat \<Rightarrow> nat \<times> stream_reply"
  JSON_parse :: "string \<Rightarrow> event option"
  GEMINI_MODERATION_HARASSMENT_THRESHOLD :: "string option"
  GEMINI_MODERATION_HATE_SPEECH_THRESHOLD :: "string option"
  GEMINI_MODERATION_SEXUALLY_EXPLICIT_THRESHOLD :: "string option"
  GEMINI_MODERATION_DANGEROUS_CONTENT_THRESHOLD :: "string option"
  type_error_message :: "string \<Rightarrow> string"
  inherited_text :: "string \<Rightarrow> string"

text \<open>
  The state: the clock (\<^verbatim>\<open>Date.now()\<close>), the token file, the fields
  \<^verbatim>\<open>AuthManager.accessToken\<close> and \<^verbatim>\<open>GeminiApiClient.projectId\<close>, and the
  requests sent so far to each endpoint, oldest first: the refresh tokens posted to the
  refresh endpoint; method, body and bearer token of each \<^verbatim>\<open>callEndpoint\<close> POST;
  request and bearer token of each streaming POST. Only requests to an endpoint take
  time.
\<close>

record world =
  now :: int
  token_file :: token_file
  accessToken :: "string option"
  projectId :: "string option"
  refresh_log :: "string list"
  call_log :: "(string \<times> string \<times> string option) list"
  stream_log :: "(stream_request \<times> string option) list"

text \<open>Truthiness of an optional string: present and not empty.\<close>

fun truthy :: "string option \<Rightarrow> bool" where
  "truthy None = False"
| "truthy (Some s) = (s \<noteq> [])"

text \<open>\<^verbatim>\<open>response.ok\<close>\<close>

definition response_ok :: "nat \<Rightarrow> bool" where
  "response_ok status = (200 \<le> status \<and> status \<le> 299)"

subsection \<open>The token file\<close>

definition getTokenFromFile :: "world \<Rightarrow> CachedTokenData option" where
  "getTokenFromFile w = (case token_file w of Stored d \<Rightarrow> Some d | _ \<Rightarrow> None)"

text \<open>A failing write is caught and logged (lines 260-263): the file stays as it was.\<close>

definition cacheTokenToFile :: "env \<Rightarrow> string \<Rightarrow> int \<Rightarrow> string option \<Rightarrow> world \<Rightarrow> world" where
  "cacheTokenToFile e accessToken' expiryDate refreshToken w =
     (if storage_writable e then
        w\<lparr>token_file := Stored \<lparr>access_token = accessToken', refresh_token = refreshToken,
                                 expiry_date = expiryDate, cached_at = now w\<rparr>\<rparr>
      else w)"

definition clearTokenCache :: "env \<Rightarrow> world \<Rightarrow> world" where
  "clearTokenCache e w =
     (if token_file w \<noteq> Absent \<and> storage_writable e then w\<lparr>token_file := Unreadable\<rparr> else w)"

subsection \<open>\<^verbatim>\<open>refreshAndCacheToken\<close> and \<^verbatim>\<open>initializeAuth\<close>\<close>

definition refreshAndCacheToken :: "env \<Rightarrow> string \<Rightarrow> world \<Rightarrow> unit result \<times> world" where
  "refreshAndCacheToken e refreshToken w =
     (let (latency, reply) = oauth_endpoint e (length (refresh_log w));
          w1 = w\<lparr>refresh_log := refresh_log w @ [refreshToken], now := now w + int latency\<rparr>
      in case reply of
           RefreshFetchRejects err \<Rightarrow> (Inl err, w1)
         | RefreshNotOk errorText \<Rightarrow>
             (Inl (JsError ''Error'' (''Token refresh failed: '' @ errorText)), w1)
         | RefreshOk refreshData \<Rightarrow>
             (let w2 = w1\<lparr>accessToken := Some (new_access_token refreshData)\<rparr>;
                  expiryTime = now w2 + expires_in refreshData * 1000;
                  nextRefreshToken =
                    (if truthy (new_refresh_token refreshData)
                     then new_refresh_token refreshData else Some refreshToken)
              in (Inr (), cacheTokenToFile e (new_access_token refreshData) expiryTime
                            nextRefreshToken w2)))"

text \<open>
  Lines 152-169: the credentials of the environment, once no cached token serves;
  \<open>parsed\<close> is \<^verbatim>\<open>JSON.parse(this.GCP_SERVICE_ACCOUNT)\<close>.
\<close>

definition auth_from_env :: "env \<Rightarrow> OAuth2Credentials result \<Rightarrow> world \<Rightarrow> unit result \<times> world" where
  "auth_from_env e parsed w =
     (case parsed of
        Inl err \<Rightarrow> (Inl err, w)
      | Inr oauth2Creds \<Rightarrow>
          (if cred_expiry_date oauth2Creds - now w > TOKEN_BUFFER_TIME e then
             (Inr (), cacheTokenToFile e (cred_access_token oauth2Creds)
                        (cred_expiry_date oauth2Creds) (Some (cred_refresh_token oauth2Creds))
                        (w\<lparr>accessToken := Some (cred_access_token oauth2Creds)\<rparr>))
           else refreshAndCacheToken e (cred_refresh_token oauth2Creds) w))"

text \<open>Lines 116-169: the body of the \<^verbatim>\<open>try\<close> of \<^verbatim>\<open>initializeAuth\<close>.\<close>

definition auth_attempt :: "env \<Rightarrow> OAuth2Credentials result \<Rightarrow> world \<Rightarrow> unit result \<times> world" where
  "auth_attempt e parsed w =
     (case getTokenFromFile w of
        Some cachedTokenData \<Rightarrow>
          (if expiry_date cachedTokenData - now w > TOKEN_BUFFER_TIME e then
             (Inr (), w\<lparr>accessToken := Some (access_token cachedTokenData)\<rparr>)
           else
             (case refresh_token cachedTokenData of
                Some cachedRefresh \<Rightarrow>
                  (if cachedRefresh \<noteq> [] then
                     (case refreshAndCacheToken e cachedRefresh w of
                        (Inr u, w') \<Rightarrow> (Inr u, w')
                      | (Inl refreshError, w') \<Rightarrow> auth_from_env e parsed w')
                   else auth_from_env e parsed w)
              | None \<Rightarrow> auth_from_env e parsed w))
      | None \<Rightarrow> auth_from_env e parsed w)"

text \<open>
  Lines 110-175. The error of line 112 is thrown before the \<^verbatim>\<open>try\<close>; whatever
  the \<^verbatim>\<open>try\<close> throws is rethrown as \<^verbatim>\<open>"Authentication failed: ..."\<close>.
\<close>

definition initializeAuth :: "env \<Rightarrow> world \<Rightarrow> unit result \<times> world" where
  "initializeAuth e w =
     (case GCP_SERVICE_ACCOUNT e of
        NotSet \<Rightarrow>
          (Inl (JsError ''Error'' (''`GCP_SERVICE_ACCOUNT` environment variable not set. ''
                  @ ''Please provide OAuth2 credentials JSON.'')), w)
      | SetTo parsed \<Rightarrow>
          (case auth_attempt e parsed w of
             (Inl err, w') \<Rightarrow>
               (Inl (JsError ''Error'' (''Authentication failed: '' @ error_message err)), w')
           | (Inr u, w') \<Rightarrow> (Inr u, w')))"

subsection \<open>\<^verbatim>\<open>callEndpoint\<close>\<close>

function callEndpoint :: "env \<Rightarrow> string \<Rightarrow> string \<Rightarrow> bool \<Rightarrow> world
    \<Rightarrow> ProjectDiscoveryResponse result \<times> world" where
  "callEndpoint e method body' isRetry w =
     (case initializeAuth e w of
        (Inl err, w0) \<Rightarrow> (Inl err, w0)
      | (Inr u, w0) \<Rightarrow>
          (let (latency, reply) = call_endpoint e (length (call_log w0));
               w1 = w0\<lparr>call_log := call_log w0 @ [(method, body', accessToken w0)],
                       now := now w0 + int latency\<rparr>
           in case reply of
                CallFetchRejects err \<Rightarrow> (Inl err, w1)
              | CallResponse status errorText json \<Rightarrow>
                  (if \<not> response_ok status then
                     (if status = 401 \<and> \<not> isRetry then
                        (case initializeAuth e (clearTokenCache e (w1\<lparr>accessToken := None\<rparr>)) of
                           (Inl err, w2) \<Rightarrow> (Inl err, w2)
                         | (Inr u', w2) \<Rightarrow> callEndpoint e method body' True w2)
                      else
                        (Inl (JsError ''Error'' (''API call failed with status '' @ dec status
                                @ '': '' @ errorText)), w1))
                   else (json, w1))))"
  by pat_completeness auto
termination
  by (relation "measure (\<lambda>(e, method, body', isRetry, w). if isRetry then 0 else 1)") auto

declare callEndpoint.simps [simp del]

text \<open>\<^verbatim>\<open>getAccessToken\<close>\<close>

definition getAccessToken :: "world \<Rightarrow> string option" where
  "getAccessToken w = accessToken w"

section \<open>The fallback policy (\<^verbatim>\<open>AutoModelSwitchingHelper\<close>)\<close>

definition AUTO_SWITCH_MODEL_MAP :: "(string \<times> string) list" where
  "AUTO_SWITCH_MODEL_MAP =
     [(''gemini-3-pro-preview'', ''gemini-3-flash-preview''),
      (''gemini-2.5-pro'', ''gemini-2.5-flash'')]"

definition RATE_LIMIT_STATUS_CODES :: "nat list" where
  "RATE_LIMIT_STATUS_CODES = [429, 503]"

definition isEnabled :: "env \<Rightarrow> bool" where
  "isEnabled e = (ENABLE_AUTO_MODEL_SWITCHING e = Some ''true'')"

text \<open>
  The names of the properties of \<^verbatim>\<open>Object.prototype\<close>, which the map inherits. Their
  values are functions, and the prototype itself for \<^verbatim>\<open>__proto__\<close>: all truthy.
\<close>

definition Object_prototype :: "string list" where
  "Object_prototype =
     [''constructor'', ''__defineGetter__'', ''__defineSetter__'', ''hasOwnProperty'',
      ''__lookupGetter__'', ''__lookupSetter__'', ''isPrototypeOf'', ''propertyIsEnumerable'',
      ''toString'', ''valueOf'', ''__proto__'', ''toLocaleString'']"

text \<open>
  \<^verbatim>\<open>AUTO_SWITCH_MODEL_MAP[originalModel] || null\<close>: a property of the map itself, or
  one it inherits.
\<close>

definition getFallbackModel :: "string \<Rightarrow> model_value option" where
  "getFallbackModel originalModel =
     (case map_of AUTO_SWITCH_MODEL_MAP originalModel of
        Some fallbackModel \<Rightarrow> Some (Model fallbackModel)
      | None \<Rightarrow>
          (if originalModel \<in> set Object_prototype then Some (Inherited originalModel)
           else None))"

definition isRateLimitStatus :: "nat \<Rightarrow> bool" where
  "isRateLimitStatus status = (status \<in> set RATE_LIMIT_STATUS_CODES)"

text \<open>
  What a template literal, or the use as a property name, makes of a model id.
\<close>

definition String_of :: "env \<Rightarrow> model_value \<Rightarrow> string" where
  "String_of e m = (case m of Model s \<Rightarrow> s | Inherited k \<Rightarrow> inherited_text e k)"

definition createSwitchNotification :: "string \<Rightarrow> string \<Rightarrow> string" where
  "createSwitchNotification originalModel fallbackModel =
     ''[Auto-switched from '' @ originalModel @ '' to '' @ fallbackModel
       @ '' due to rate limiting]'' @ [CHR 0x0A, CHR 0x0A]"

section \<open>The streaming client (\<^verbatim>\<open>GeminiApiClient\<close>)\<close>

definition CONNECTION_TIMEOUT_MS :: nat where
  "CONNECTION_TIMEOUT_MS = 100000"

definition IDLE_TIMEOUT_MS :: nat where
  "IDLE_TIMEOUT_MS = 100000"

definition QUICK_FAIL_THRESHOLD_MS :: int where
  "QUICK_FAIL_THRESHOLD_MS = 5000"

subsection \<open>From a decoded event to a chunk (lines 482-507)\<close>

definition native_candidate :: "upstream_candidate \<Rightarrow> candidate" where
  "native_candidate c =
     \<lparr>content = \<lparr>role = ''model'', parts = (case up_parts c of Some ps \<Rightarrow> ps | None \<Rightarrow> [])\<rparr>,
      finishReason = up_finishReason c,
      groundingMetadata = up_groundingMetadata c\<rparr>"

definition native_usage :: "upstream_usage \<Rightarrow> usageMetadata" where
  "native_usage u =
     \<lparr>promptTokenCount = or_zero (up_promptTokenCount u),
      candidatesTokenCount = or_zero (up_candidatesTokenCount u),
      totalTokenCount =
        js_add (or_zero (up_promptTokenCount u)) (or_zero (up_candidatesTokenCount u))\<rparr>"

text \<open>
  The chunk one event makes the attempt yield: none when \<^verbatim>\<open>jsonData.response?.candidates\<close>
  is missing.
\<close>

definition native_chunk :: "model_value \<Rightarrow> upstream_response option
    \<Rightarrow> GeminiNativeStreamChunk option" where
  "native_chunk modelId response =
     (case response of
        None \<Rightarrow> None
      | Some r \<Rightarrow>
          (case up_candidates r of
             None \<Rightarrow> None
           | Some cs \<Rightarrow>
               Some \<lparr>chunk_type = ''gemini_native'',
                     data = \<lparr>candidates = map native_candidate cs,
                             usageMetadata = map_option native_usage (up_usageMetadata r),
                             modelVersion = modelId\<rparr>\<rparr>))"

text \<open>
  The body of the \<^verbatim>\<open>for await\<close> of lines 481-509 over the decoded events. A payload on
  which the property reads throw ends the loop with what they throw.
\<close>

fun yield_chunks :: "model_value \<Rightarrow> event list \<Rightarrow> GeminiNativeStreamChunk generated" where
  "yield_chunks modelId [] = ([], None)"
| "yield_chunks modelId (BadPayload err # events) = ([], Some err)"
| "yield_chunks modelId (Payload response # events) =
     (let (ys, t) = yield_chunks modelId events
      in ((case native_chunk modelId response of Some c \<Rightarrow> [c] | None \<Rightarrow> []) @ ys, t))"

text \<open>
  Lines 481-509 on a response body: the decoder runs with the idle timeout, and the loop
  consumes what it yields. What the loop throws ends the attempt before the decoder goes
  on; otherwise the attempt ends as the decoder does.
\<close>

definition stream_chunks :: "env \<Rightarrow> model_value \<Rightarrow> string list \<Rightarrow> stream_end
    \<Rightarrow> GeminiNativeStreamChunk generated" where
  "stream_chunks e modelId reads fin =
     (let (events, decoder_end) = parseSSEStream (JSON_parse e) (Some IDLE_TIMEOUT_MS) reads fin;
          (ys, loop_end) = yield_chunks modelId events
      in (ys, (case loop_end of Some err \<Rightarrow> Some err | None \<Rightarrow> decoder_end)))"

text \<open>
  The notice of lines 453-466, given the text that \<^verbatim>\<open>createSwitchNotification\<close>
  returns.
\<close>

definition switch_notice :: "string \<Rightarrow> model_value \<Rightarrow> GeminiNativeStreamChunk" where
  "switch_notice notification fallbackModel =
     \<lparr>chunk_type = ''gemini_native'',
      data = \<lparr>candidates =
                [\<lparr>content = \<lparr>role = ''model'', parts = [TextPart notification]\<rparr>,
                  finishReason = None, groundingMetadata = None\<rparr>],
              usageMetadata = None,
              modelVersion = fallbackModel\<rparr>\<rparr>"

text \<open>
  The fetch of lines 421-429 as the \<open>n\<close>-th streaming request: the timer of line 417
  aborts it when no response has come after \<^verbatim>\<open>CONNECTION_TIMEOUT_MS\<close>, and the fetch
  then rejects with an \<open>AbortError\<close> (its message is the runtime's).
\<close>

definition fetch_stream :: "env \<Rightarrow> nat \<Rightarrow> nat \<times> stream_reply" where
  "fetch_stream e n =
     (let (latency, reply) = stream_endpoint e n
      in if latency \<ge> CONNECTION_TIMEOUT_MS
         then (CONNECTION_TIMEOUT_MS,
               StreamFetchRejects (JsError ''AbortError'' ''The operation was aborted.''))
         else (latency, reply))"

text \<open>\<^verbatim>\<open>error instanceof Error && error.name === "AbortError"\<close>\<close>

fun isTimeout :: "thrown \<Rightarrow> bool" where
  "isTimeout (JsError name message) = (name = ''AbortError'')"
| "isTimeout (JsValue v) = False"

subsection \<open>\<^verbatim>\<open>performNativeStreamRequest\<close>\<close>

text \<open>
  Lines 411-525. The result is what the generator yields and throws, and the state it
  leaves. \<open>try_block\<close> is the \<^verbatim>\<open>try\<close> block (lines 420-509), in which a nested
  \<^verbatim>\<open>yield*\<close> passes on what the nested attempt yields and throws there what it
  throws. \<open>performNativeStreamRequest\<close> runs the block and then the \<^verbatim>\<open>catch\<close>
  (lines 510-524) on what the block threw; the \<^verbatim>\<open>yield*\<close> of line 519 is outside
  every \<^verbatim>\<open>try\<close>, so what that attempt throws goes to the caller.
\<close>

function try_block ::
  "env \<Rightarrow> stream_request \<Rightarrow> model_value \<Rightarrow> bool \<Rightarrow> world
     \<Rightarrow> GeminiNativeStreamChunk generated \<times> world"
  and performNativeStreamRequest ::
  "env \<Rightarrow> stream_request \<Rightarrow> model_value \<Rightarrow> bool \<Rightarrow> world
     \<Rightarrow> GeminiNativeStreamChunk generated \<times> world" where
  "try_block e streamRequest modelId isRetry w =
     (let (latency, reply) = fetch_stream e (length (stream_log w));
          w1 = w\<lparr>stream_log := stream_log w @ [(streamRequest, getAccessToken w)],
                 now := now w + int latency\<rparr>
      in case reply of
           StreamFetchRejects err \<Rightarrow> (([], Some err), w1)
         | StreamResponse status body' took \<Rightarrow>
             (if \<not> response_ok status then
                (if status = 401 \<and> \<not> isRetry then
                   (case initializeAuth e (clearTokenCache e w1) of
                      (Inl err, w2) \<Rightarrow> (([], Some err), w2)
                    | (Inr u, w2) \<Rightarrow>
                        performNativeStreamRequest e streamRequest modelId True w2)
                 else
                   (case (if isRateLimitStatus status \<and> \<not> isRetry \<and> isEnabled e
                          then getFallbackModel (String_of e modelId) else None) of
                      Some fallbackModel \<Rightarrow>
                        (case performNativeStreamRequest e
                                (streamRequest\<lparr>model := fallbackModel\<rparr>) fallbackModel True w1 of
                           ((zs, t), w2) \<Rightarrow>
                             ((switch_notice
                                 (createSwitchNotification (String_of e modelId)
                                    (String_of e fallbackModel))
                                 fallbackModel # zs, t), w2))
                    | None \<Rightarrow>
                        (([], Some (JsError ''Error'' (''Stream request failed: '' @ dec status))),
                         w1)))
              else
                (case body' of
                   NoBody \<Rightarrow> (([], Some (JsError ''Error'' ''Response has no body'')), w1)
                 | Body reads fin \<Rightarrow>
                     (stream_chunks e modelId reads fin, w1\<lparr>now := now w1 + int took\<rparr>))))"
| "performNativeStreamRequest e streamRequest modelId isRetry w =
     (let startTime = now w
      in case try_block e streamRequest modelId isRetry w of
           ((ys, None), w3) \<Rightarrow> ((ys, None), w3)
         | ((ys, Some error), w3) \<Rightarrow>
             (let duration = now w3 - startTime;
                  isQuickFail = duration < QUICK_FAIL_THRESHOLD_MS
              in if \<not> isRetry \<and> (isTimeout error \<or> isQuickFail) then
                   (case performNativeStreamRequest e streamRequest modelId True w3 of
                      ((zs, t), w4) \<Rightarrow> ((ys @ zs, t), w4))
                 else ((ys, Some error), w3)))"
  by pat_completeness auto
termination
  by (relation "measure (\<lambda>x. case x of
          Inl (e, streamRequest, modelId, isRetry, w) \<Rightarrow> (if isRetry then 0 else 2)
        | Inr (e, streamRequest, modelId, isRetry, w) \<Rightarrow> (if isRetry then 1 else 3))") auto

declare try_block.simps [simp del]

declare performNativeStreamRequest.simps [simp del]

subsection \<open>\<^verbatim>\<open>discoverProjectId\<close>\<close>

definition discovery_failed :: thrown where
  "discovery_failed = JsError ''Error'' (''Could not discover project ID. Make sure you're ''
     @ ''authenticated and consider setting GEMINI_PROJECT_ID.'')"

text \<open>Lines 51-69: the discovery through \<^verbatim>\<open>loadCodeAssist\<close>.\<close>

definition loadCodeAssist :: "env \<Rightarrow> world \<Rightarrow> string result \<times> world" where
  \<open>loadCodeAssist e w =
     (case callEndpoint e ''loadCodeAssist''
             (''{"cloudaicompanionProject":"default-project",''
                @ ''"metadata":{"duetProject":"default-project"}}'') False w of
        (Inl err, w') \<Rightarrow> (Inl discovery_failed, w')
      | (Inr loadResponse, w') \<Rightarrow>
          (if truthy (cloudaicompanionProject loadResponse) then
             (case cloudaicompanionProject loadResponse of
                Some p \<Rightarrow> (Inr p, w'\<lparr>projectId := Some p\<rparr>)
              | None \<Rightarrow> (Inl discovery_failed, w'))
           else (Inl discovery_failed, w')))\<close>

definition discoverProjectId :: "env \<Rightarrow> world \<Rightarrow> string result \<times> world" where
  "discoverProjectId e w =
     (case (if truthy (GEMINI_PROJECT_ID e) then GEMINI_PROJECT_ID e else None) of
        Some p \<Rightarrow> (Inr p, w)
      | None \<Rightarrow>
          (case (if truthy (projectId w) then projectId w else None) of
             Some p \<Rightarrow> (Inr p, w)
           | None \<Rightarrow> loadCodeAssist e w))"

subsection \<open>\<^verbatim>\<open>sanitizeSchemaForGemini\<close> and \<^verbatim>\<open>createSafetySettings\<close>\<close>

text \<open>
  Both are of \<^verbatim>\<open>helpers/generation-config-validator.ts\<close>, whose line numbers are
  given here.
\<close>

definition UNSUPPORTED_SCHEMA_KEYS :: "string list" where
  "UNSUPPORTED_SCHEMA_KEYS =
     [''$schema'', ''$id'', ''$ref'', ''$defs'', ''$comment'', ''const'', ''anyOf'', ''oneOf'',
      ''allOf'', ''not'', ''if'', ''then'', ''else'', ''dependentSchemas'', ''dependentRequired'',
      ''additionalItems'', ''unevaluatedItems'', ''unevaluatedProperties'', ''contentEncoding'',
      ''contentMediaType'', ''contentSchema'', ''deprecated'', ''readOnly'', ''writeOnly'',
      ''examples'', ''default'', ''definitions'', ''strict'']"

text \<open>
  Lines 68-73: with truthy \<open>properties\<close> and an array \<open>required\<close>, the fields of
  \<open>required\<close> that name a property are kept (\<^verbatim>\<open>includes\<close> finds strings only).
\<close>

definition restrict_required :: "(string \<times> json) list \<Rightarrow> (string \<times> json) list" where
  "restrict_required sanitized =
     (case (map_of sanitized ''properties'', map_of sanitized ''required'') of
        (Some properties, Some (JArray required)) \<Rightarrow>
          (if json_truthy properties then
             put sanitized ''required''
               (JArray (filter (\<lambda>field. case field of
                                            JString f \<Rightarrow> f \<in> set (map fst (entries properties))
                                          | _ \<Rightarrow> False) required))
           else sanitized)
      | _ \<Rightarrow> sanitized)"

text \<open>Lines 75-78: a \<open>type\<close> that is a string is put in lower case.\<close>

definition lower_type :: "(string \<times> json) list \<Rightarrow> (string \<times> json) list" where
  "lower_type sanitized =
     (case map_of sanitized ''type'' of
        Some (JString t) \<Rightarrow> put sanitized ''type'' (JString (toLowerCase t))
      | _ \<Rightarrow> sanitized)"

text \<open>
  Lines 45-84. \<open>undefined\<close> is returned as it is (line 46): see \<open>map_option\<close> at the
  call. The loop of lines 58-66 skips the unsupported keys and assigns the others their
  sanitized values.
\<close>

fun sanitizeSchemaForGemini :: "json \<Rightarrow> json" where
  "sanitizeSchemaForGemini (JArray xs) = JArray (map sanitizeSchemaForGemini xs)"
| "sanitizeSchemaForGemini (JObject kvs) =
     JObject (lower_type (restrict_required
       (foldl (\<lambda>sanitized (key, value). put sanitized key value) []
          (map (\<lambda>(key, value). (key, sanitizeSchemaForGemini value))
             (filter (\<lambda>(key, value). key \<notin> set UNSUPPORTED_SCHEMA_KEYS \<and> \<not> startsWith key ''$'')
                kvs)))))"
| "sanitizeSchemaForGemini v = v"

text \<open>Lines 121-153, with the categories of \<^verbatim>\<open>GEMINI_SAFETY_CATEGORIES\<close>.\<close>

definition safety_setting :: "string \<Rightarrow> string option \<Rightarrow> json list" where
  "safety_setting category threshold =
     (case threshold of
        Some t \<Rightarrow>
          (if t \<noteq> [] then [JObject [(''category'', JString category), (''threshold'', JString t)]]
           else [])
      | None \<Rightarrow> [])"

definition createSafetySettings :: "env \<Rightarrow> json list" where
  "createSafetySettings e =
     safety_setting ''HARM_CATEGORY_HARASSMENT'' (GEMINI_MODERATION_HARASSMENT_THRESHOLD e)
     @ safety_setting ''HARM_CATEGORY_HATE_SPEECH'' (GEMINI_MODERATION_HATE_SPEECH_THRESHOLD e)
     @ safety_setting ''HARM_CATEGORY_SEXUALLY_EXPLICIT''
         (GEMINI_MODERATION_SEXUALLY_EXPLICIT_THRESHOLD e)
     @ safety_setting ''HARM_CATEGORY_DANGEROUS_CONTENT''
         (GEMINI_MODERATION_DANGEROUS_CONTENT_THRESHOLD e)"

subsection \<open>\<^verbatim>\<open>convertContentsToNativeFormat\<close> (lines 249-297)\<close>

text \<open>
  The object a loop builds from \<^verbatim>\<open>{}\<close> by assigning each entry of \<open>v\<close> under
  its renamed key.
\<close>

definition renamed :: "(string \<Rightarrow> string) \<Rightarrow> json \<Rightarrow> (string \<times> json) list" where
  "renamed f v = foldl (\<lambda>obj (key, value). put obj (f key) value) [] (entries v)"

definition part_key :: "string \<Rightarrow> string" where
  "part_key key =
     (if key = ''function_call'' then ''functionCall''
      else if key = ''function_response'' then ''functionResponse''
      else key)"

text \<open>Whether one of the parts has an entry under one of the names.\<close>

definition has_entry :: "string list \<Rightarrow> json list \<Rightarrow> bool" where
  "has_entry names ps = list_ex (\<lambda>p. list_ex (\<lambda>(key, value). key \<in> set names) (entries p)) ps"

text \<open>
  Lines 250-296 on one element of \<open>contents\<close>. \<^verbatim>\<open>content.parts\<close> throws on
  \<open>null\<close>, and so does \<^verbatim>\<open>Object.entries(part)\<close>. An element without an array
  \<open>parts\<close> is returned as it is. Otherwise its properties are copied, \<open>role\<close> is
  set (to a role derived from the parts when the element has no truthy one; it stays
  \<open>undefined\<close> when there is none to derive) and \<open>parts\<close> holds the converted
  parts.
\<close>

definition convert_content :: "env \<Rightarrow> json \<Rightarrow> json result" where
  "convert_content e content' =
     (case content' of
        JNull \<Rightarrow> Inl (JsError ''TypeError'' (type_error_message e ''content.parts''))
      | _ \<Rightarrow>
          (case member content' ''parts'' of
             Some (JArray ps) \<Rightarrow>
               (if JNull \<in> set ps then
                  Inl (JsError ''TypeError'' (type_error_message e ''Object.entries(part)''))
                else
                  (let convertedParts = map (\<lambda>p. JObject (renamed part_key p)) ps;
                       hasFunctionResponse = has_entry [''function_response'', ''functionResponse''] ps;
                       hasFunctionCall = has_entry [''function_call'', ''functionCall''] ps;
                       role' =
                         (if truthy_value (member content' ''role'') then member content' ''role''
                          else if hasFunctionResponse then Some (JString ''user'')
                          else if hasFunctionCall then Some (JString ''model'')
                          else member content' ''role'');
                       copied = (case role' of
                                   Some r \<Rightarrow> put (entries content') ''role'' r
                                 | None \<Rightarrow> entries content')
                   in Inr (JObject (put copied ''parts'' (JArray convertedParts)))))
           | _ \<Rightarrow> Inr content'))"

text \<open>\<^verbatim>\<open>contents.map\<close> throws when the request has no \<open>contents\<close>.\<close>

definition convertContentsToNativeFormat :: "env \<Rightarrow> json list option \<Rightarrow> json list result" where
  "convertContentsToNativeFormat e contents' =
     (case contents' of
        None \<Rightarrow> Inl (JsError ''TypeError'' (type_error_message e ''contents.map''))
      | Some cs \<Rightarrow> first_failure (map (convert_content e) cs))"

subsection \<open>\<^verbatim>\<open>buildNativeStreamRequest\<close> (lines 302-406)\<close>

definition config_key :: "string \<Rightarrow> string" where
  "config_key key =
     (if key = ''thinking_config'' then ''thinkingConfig''
      else if key = ''max_output_tokens'' then ''maxOutputTokens''
      else if key = ''stop_sequences'' then ''stopSequences''
      else if key = ''response_mime_type'' then ''responseMimeType''
      else if key = ''presence_penalty'' then ''presencePenalty''
      else if key = ''frequency_penalty'' then ''frequencyPenalty''
      else key)"

definition thinking_key :: "string \<Rightarrow> string" where
  "thinking_key key =
     (if key = ''include_thoughts'' then ''includeThoughts''
      else if key = ''thinking_budget'' then ''thinkingBudget''
      else if key = ''thinking_level'' then ''thinkingLevel''
      else key)"

text \<open>\<^verbatim>\<open>typeof v === "object"\<close>\<close>

fun is_object :: "json \<Rightarrow> bool" where
  "is_object JNull = True"
| "is_object (JArray xs) = True"
| "is_object (JObject kvs) = True"
| "is_object v = False"

text \<open>Lines 307-354: the properties of \<open>generationConfig\<close>.\<close>

definition build_generationConfig :: "json option \<Rightarrow> (string \<times> json) list" where
  "build_generationConfig gc =
     (case gc of
        None \<Rightarrow> []
      | Some gc' \<Rightarrow>
          (if json_truthy gc' then
             (let generationConfig' = renamed config_key gc'
              in case map_of generationConfig' ''thinkingConfig'' of
                   Some tc \<Rightarrow>
                     (if json_truthy tc \<and> is_object tc then
                        put generationConfig' ''thinkingConfig'' (JObject (renamed thinking_key tc))
                      else generationConfig')
                 | None \<Rightarrow> generationConfig')
           else []))"

text \<open>Lines 380-384 on one declaration; \<^verbatim>\<open>fd.name\<close> throws on \<open>null\<close>.\<close>

definition convert_declaration :: "env \<Rightarrow> json \<Rightarrow> json result" where
  "convert_declaration e fd =
     (case fd of
        JNull \<Rightarrow> Inl (JsError ''TypeError'' (type_error_message e ''fd.name''))
      | _ \<Rightarrow>
          Inr (JObject (present
            [(''name'', member fd ''name''),
             (''description'', member fd ''description''),
             (''parametersJsonSchema'',
              map_option sanitizeSchemaForGemini
                (if truthy_value (member fd ''parametersJsonSchema'')
                 then member fd ''parametersJsonSchema'' else member fd ''parameters''))])))"

text \<open>Lines 375-388 on one tool; \<^verbatim>\<open>tool.functionDeclarations\<close> throws on \<open>null\<close>.\<close>

definition convert_tool :: "env \<Rightarrow> json \<Rightarrow> json result" where
  "convert_tool e tool =
     (case tool of
        JNull \<Rightarrow> Inl (JsError ''TypeError'' (type_error_message e ''tool.functionDeclarations''))
      | _ \<Rightarrow>
          (case (if truthy_value (member tool ''functionDeclarations'')
                 then member tool ''functionDeclarations''
                 else member tool ''function_declarations'') of
             Some (JArray funcDecls) \<Rightarrow>
               (case first_failure (map (convert_declaration e) funcDecls) of
                  Inl err \<Rightarrow> Inl err
                | Inr ds \<Rightarrow> Inr (JObject [(''functionDeclarations'', JArray ds)]))
           | _ \<Rightarrow> Inr tool))"

text \<open>Lines 374-390: the tools of the request, when it has any.\<close>

definition sanitized_tools :: "env \<Rightarrow> json list option \<Rightarrow> json option result" where
  "sanitized_tools e ts =
     (case ts of
        None \<Rightarrow> Inr None
      | Some ts' \<Rightarrow>
          (if length ts' > 0 then
             (case first_failure (map (convert_tool e) ts') of
                Inl err \<Rightarrow> Inl err
              | Inr sanitizedTools \<Rightarrow> Inr (Some (JArray sanitizedTools)))
           else Inr None))"

text \<open>Lines 396-403: the safety settings of the request, or those of the environment.\<close>

definition safety_settings :: "env \<Rightarrow> json list option \<Rightarrow> json option" where
  "safety_settings e ss =
     (case (case ss of Some ss' \<Rightarrow> (if length ss' > 0 then Some ss' else None) | None \<Rightarrow> None) of
        Some ss' \<Rightarrow> Some (JArray ss')
      | None \<Rightarrow>
          (let safetySettings' = createSafetySettings e
           in if length safetySettings' > 0 then Some (JArray safetySettings') else None))"

text \<open>
  Lines 302-406. What the conversion of the contents (line 356) or of the tools throws is
  thrown to the caller.
\<close>

definition buildNativeStreamRequest :: "env \<Rightarrow> string \<Rightarrow> string \<Rightarrow> GeminiNativeRequest
    \<Rightarrow> stream_request result" where
  "buildNativeStreamRequest e modelId projectId' request' =
     (let generationConfig' = build_generationConfig (generationConfig request')
      in case convertContentsToNativeFormat e (contents request') of
           Inl err \<Rightarrow> Inl err
         | Inr contents' \<Rightarrow>
             (case sanitized_tools e (tools request') of
                Inl err \<Rightarrow> Inl err
              | Inr sanitizedTools \<Rightarrow>
                  Inr \<lparr>model = Model modelId,
                       project = projectId',
                       request = JObject (present
                         [(''contents'', Some (JArray contents')),
                          (''systemInstruction'',
                           if truthy_value (systemInstruction request')
                           then systemInstruction request' else None),
                          (''generationConfig'',
                           if length generationConfig' > 0
                           then Some (JObject generationConfig') else None),
                          (''tools'', sanitizedTools),
                          (''toolConfig'',
                           if truthy_value (toolConfig request') then toolConfig request' else None),
                          (''safetySettings'', safety_settings e (safetySettings request'))])\<rparr>))"

subsection \<open>\<^verbatim>\<open>streamContentNative\<close> and \<^verbatim>\<open>getCompletionNative\<close>\<close>

text \<open>Lines 146-155.\<close>

definition streamContentNative :: "env \<Rightarrow> string \<Rightarrow> GeminiNativeRequest \<Rightarrow> world
    \<Rightarrow> GeminiNativeStreamChunk generated \<times> world" where
  "streamContentNative e modelId request' w =
     (case initializeAuth e w of
        (Inl err, w1) \<Rightarrow> (([], Some err), w1)
      | (Inr u, w1) \<Rightarrow>
          (case discoverProjectId e w1 of
             (Inl err, w2) \<Rightarrow> (([], Some err), w2)
           | (Inr projectId', w2) \<Rightarrow>
               (case buildNativeStreamRequest e modelId projectId' request' of
                  Inl err \<Rightarrow> (([], Some err), w2)
                | Inr streamRequest \<Rightarrow>
                    performNativeStreamRequest e streamRequest (Model modelId) False w2)))"

text \<open>
  Lines 175-191, the body of the loop over the candidates of a chunk: the first candidate
  that arrives creates the one candidate of the answer; every candidate appends its parts
  to it and overwrites its \<open>finishReason\<close> and \<open>groundingMetadata\<close> when it has
  its own.
\<close>

definition add_candidate :: "candidate list \<Rightarrow> candidate \<Rightarrow> candidate list" where
  "add_candidate candidates' c =
     (case (if length candidates' = 0
            then candidates' @ [\<lparr>content = \<lparr>role = ''model'', parts = []\<rparr>,
                                 finishReason = None, groundingMetadata = None\<rparr>]
            else candidates') of
        [] \<Rightarrow> []
      | c0 # rest \<Rightarrow>
          (let c1 = c0\<lparr>content := (content c0)\<lparr>parts := parts (content c0) @ parts (content c)\<rparr>\<rparr>;
               c2 = (if truthy (finishReason c) then c1\<lparr>finishReason := finishReason c\<rparr> else c1);
               c3 = (if groundingMetadata c \<noteq> None
                     then c2\<lparr>groundingMetadata := groundingMetadata c\<rparr> else c2)
           in c3 # rest))"

text \<open>Lines 172-197, the body of the \<^verbatim>\<open>for await\<close> for one chunk.\<close>

definition add_chunk :: "candidate list \<times> usageMetadata option \<Rightarrow> GeminiNativeStreamChunk
    \<Rightarrow> candidate list \<times> usageMetadata option" where
  "add_chunk acc chunk =
     (case acc of (candidates', usage) \<Rightarrow>
        (if chunk_type chunk = ''gemini_native'' then
           (foldl add_candidate candidates' (candidates (data chunk)),
            (if usageMetadata (data chunk) \<noteq> None then usageMetadata (data chunk) else usage))
         else (candidates', usage)))"

text \<open>Lines 169-203 on the chunks the streaming attempt yields.\<close>

definition collect_response :: "string \<Rightarrow> GeminiNativeStreamChunk list \<Rightarrow> GeminiNativeResponse" where
  "collect_response modelId chunks =
     (case foldl add_chunk ([], None) chunks of
        (candidates', usage) \<Rightarrow>
          \<lparr>candidates = candidates', usageMetadata = usage, modelVersion = Model modelId\<rparr>)"

text \<open>Lines 160-204.\<close>

definition getCompletionNative :: "env \<Rightarrow> string \<Rightarrow> GeminiNativeRequest \<Rightarrow> world
    \<Rightarrow> GeminiNativeResponse result \<times> world" where
  "getCompletionNative e modelId request' w =
     (case initializeAuth e w of
        (Inl err, w1) \<Rightarrow> (Inl err, w1)
      | (Inr u, w1) \<Rightarrow>
          (case discoverProjectId e w1 of
             (Inl err, w2) \<Rightarrow> (Inl err, w2)
           | (Inr projectId', w2) \<Rightarrow>
               (case buildNativeStreamRequest e modelId projectId' request' of
                  Inl err \<Rightarrow> (Inl err, w2)
                | Inr streamRequest \<Rightarrow>
                    (case performNativeStreamRequest e streamRequest (Model modelId) False w2 of
                       ((chunks, Some err), w3) \<Rightarrow> (Inl err, w3)
                     | ((chunks, None), w3) \<Rightarrow>
                         (Inr (collect_response modelId chunks), w3)))))"

subsection \<open>What the aggregate is claimed to be\<close>

text \<open>
  The last value seen that satisfies \<open>P\<close> (is truthy, is present), \<open>None\<close> when
  there is none; and the one candidate the specification describes for the candidates
  \<open>cs\<close> in their order of arrival: all their parts, the last finish reason seen and the
  last grounding metadata seen.
\<close>

definition last_where :: "('a option \<Rightarrow> bool) \<Rightarrow> 'a option list \<Rightarrow> 'a option" where
  "last_where P xs = (case filter P xs of [] \<Rightarrow> None | y # ys \<Rightarrow> last (y # ys))"

definition merged :: "candidate list \<Rightarrow> candidate" where
  "merged cs =
     \<lparr>content = \<lparr>role = ''model'', parts = concat (map (\<lambda>c. parts (content c)) cs)\<rparr>,
      finishReason = last_where truthy (map finishReason cs),
      groundingMetadata = last_where (\<lambda>g. g \<noteq> None) (map groundingMetadata cs)\<rparr>"

text \<open>Every chunk is marked \<^verbatim>\<open>gemini_native\<close>.\<close>

definition all_native :: "GeminiNativeStreamChunk list \<Rightarrow> bool" where
  "all_native chunks = list_all (\<lambda>c. chunk_type c = ''gemini_native'') chunks"

section \<open>Calls of \<^verbatim>\<open>initializeAuth\<close> that overlap\<close>

text \<open>
  \<^verbatim>\<open>initializeAuth\<close> is an async function: it runs until it awaits, and other calls
  run while it waits. Here a call is cut where it waits for the token file and where it
  waits for the answer of the refresh endpoint (the writes to the token file and the
  reading of an answer's body belong to the step they follow). A call is in one of four
  places: not started; reading the token file (line 120); waiting for the answer to the
  refresh request it has posted (line 183), which holds whose refresh token was posted
  (the cached one, line 143, or the one of the environment, line 169), the token, the
  number of the request and the time of posting; or returned.
\<close>

datatype refresh_source = OfCache | OfEnv

datatype call_state =
    NotStarted
  | ReadingFile
  | Refreshing refresh_source string nat int
  | Returned "unit result"

text \<open>Line 183: the refresh request goes out.\<close>

definition post_refresh :: "refresh_source \<Rightarrow> string \<Rightarrow> world \<Rightarrow> call_state \<times> world" where
  "post_refresh source refreshToken w =
     (Refreshing source refreshToken (length (refresh_log w)) (now w),
      w\<lparr>refresh_log := refresh_log w @ [refreshToken]\<rparr>)"

text \<open>The \<^verbatim>\<open>catch\<close> of lines 170-174.\<close>

definition auth_failed :: "thrown \<Rightarrow> unit result" where
  "auth_failed err = Inl (JsError ''Error'' (''Authentication failed: '' @ error_message err))"

text \<open>Lines 152-169, up to the refresh request.\<close>

definition env_step :: "env \<Rightarrow> OAuth2Credentials result \<Rightarrow> world \<Rightarrow> call_state \<times> world" where
  "env_step e parsed w =
     (case parsed of
        Inl err \<Rightarrow> (Returned (auth_failed err), w)
      | Inr oauth2Creds \<Rightarrow>
          (if cred_expiry_date oauth2Creds - now w > TOKEN_BUFFER_TIME e then
             (Returned (Inr ()),
              cacheTokenToFile e (cred_access_token oauth2Creds) (cred_expiry_date oauth2Creds)
                (Some (cred_refresh_token oauth2Creds))
                (w\<lparr>accessToken := Some (cred_access_token oauth2Creds)\<rparr>))
           else post_refresh OfEnv (cred_refresh_token oauth2Creds) w))"

text \<open>Lines 129-150, once the token file is read, up to the refresh request.\<close>

definition file_step :: "env \<Rightarrow> OAuth2Credentials result \<Rightarrow> world \<Rightarrow> call_state \<times> world" where
  "file_step e parsed w =
     (case getTokenFromFile w of
        Some cachedTokenData \<Rightarrow>
          (if expiry_date cachedTokenData - now w > TOKEN_BUFFER_TIME e then
             (Returned (Inr ()), w\<lparr>accessToken := Some (access_token cachedTokenData)\<rparr>)
           else
             (case refresh_token cachedTokenData of
                Some cachedRefresh \<Rightarrow>
                  (if cachedRefresh \<noteq> [] then post_refresh OfCache cachedRefresh w
                   else env_step e parsed w)
              | None \<Rightarrow> env_step e parsed w))
      | None \<Rightarrow> env_step e parsed w)"

text \<open>
  Lines 196-219, once the answer to request \<open>n\<close>, posted at \<open>posted\<close>, is there: the
  clock is then not before the answer's arrival. A refresh with the cached token that
  fails falls through to the credentials of the environment (lines 145-148).
\<close>

definition answer_step :: "env \<Rightarrow> OAuth2Credentials result \<Rightarrow> refresh_source \<Rightarrow> string \<Rightarrow> nat
    \<Rightarrow> int \<Rightarrow> world \<Rightarrow> call_state \<times> world" where
  "answer_step e parsed source refreshToken n posted w =
     (let (latency, reply) = oauth_endpoint e n;
          w1 = w\<lparr>now := max (now w) (posted + int latency)\<rparr>;
          failed = (\<lambda>err. case source of
                             OfCache \<Rightarrow> env_step e parsed w1
                           | OfEnv \<Rightarrow> (Returned (auth_failed err), w1))
      in case reply of
           RefreshFetchRejects err \<Rightarrow> failed err
         | RefreshNotOk errorText \<Rightarrow>
             failed (JsError ''Error'' (''Token refresh failed: '' @ errorText))
         | RefreshOk refreshData \<Rightarrow>
             (let w2 = w1\<lparr>accessToken := Some (new_access_token refreshData)\<rparr>;
                  expiryTime = now w2 + expires_in refreshData * 1000;
                  nextRefreshToken =
                    (if truthy (new_refresh_token refreshData)
                     then new_refresh_token refreshData else Some refreshToken)
              in (Returned (Inr ()),
                  cacheTokenToFile e (new_access_token refreshData) expiryTime
                    nextRefreshToken w2)))"

text \<open>
  One step of one call, from its place and the shared state. Without
  \<^verbatim>\<open>GCP_SERVICE_ACCOUNT\<close> a call throws as soon as it starts (line 112), so it is in
  no other place.
\<close>

definition advance :: "env \<Rightarrow> call_state \<Rightarrow> world \<Rightarrow> call_state \<times> world" where
  "advance e c w =
     (case GCP_SERVICE_ACCOUNT e of
        NotSet \<Rightarrow>
          (case c of
             Returned r \<Rightarrow> (c, w)
           | _ \<Rightarrow>
               (Returned (Inl (JsError ''Error''
                  (''`GCP_SERVICE_ACCOUNT` environment variable not set. ''
                     @ ''Please provide OAuth2 credentials JSON.''))), w))
      | SetTo parsed \<Rightarrow>
          (case c of
             NotStarted \<Rightarrow> (ReadingFile, w)
           | ReadingFile \<Rightarrow> file_step e parsed w
           | Refreshing source refreshToken n posted \<Rightarrow>
               answer_step e parsed source refreshToken n posted w
           | Returned r \<Rightarrow> (c, w)))"

text \<open>
  Several calls on one \<^verbatim>\<open>AuthManager\<close>: the shared state and the place of each call.
  A schedule names, step by step, the call that runs next.
\<close>

record system =
  shared :: world
  calls :: "call_state list"

definition step :: "env \<Rightarrow> system \<Rightarrow> nat \<Rightarrow> system" where
  "step e sys i =
     (if i < length (calls sys) then
        (case advance e (calls sys ! i) (shared sys) of
           (c, w) \<Rightarrow> \<lparr>shared = w, calls = (calls sys)[i := c]\<rparr>)
      else sys)"

definition run :: "env \<Rightarrow> nat list \<Rightarrow> system \<Rightarrow> system" where
  "run e schedule sys = foldl (step e) sys schedule"

text \<open>\<open>n\<close> calls, none started.\<close>

definition start :: "world \<Rightarrow> nat \<Rightarrow> system" where
  "start w n = \<lparr>shared = w, calls = replicate n NotStarted\<rparr>"

text \<open>The refresh requests that are outstanding: posted and not yet answered.\<close>

fun is_refreshing :: "call_state \<Rightarrow> bool" where
  "is_refreshing (Refreshing source refreshToken n posted) = True"
| "is_refreshing c = False"

definition outstanding :: "system \<Rightarrow> nat" where
  "outstanding sys = length (filter is_refreshing (calls sys))"

text \<open>The refresh requests a call may still post: the cached token's, then the environment's.\<close>

fun may_post :: "call_state \<Rightarrow> nat" where
  "may_post NotStarted = 2"
| "may_post ReadingFile = 2"
| "may_post (Refreshing OfCache refreshToken n posted) = 1"
| "may_post (Refreshing OfEnv refreshToken n posted) = 0"
| "may_post (Returned r) = 0"

text \<open>
  For the comparison with a call run in one go: what the \<^verbatim>\<open>catch\<close> of lines 170-174
  makes of the outcome of the \<^verbatim>\<open>try\<close>, and the step of a call that waits for an
  answer (any other call stays where it is).
\<close>

definition rethrown :: "unit result \<Rightarrow> unit result" where
  "rethrown r = (case r of Inl err \<Rightarrow> auth_failed err | Inr u \<Rightarrow> Inr u)"

definition settle :: "env \<Rightarrow> OAuth2Credentials result \<Rightarrow> call_state \<times> world \<Rightarrow> call_state \<times> world" where
  "settle e parsed cw =
     (case cw of
        (Refreshing source refreshToken n posted, w) \<Rightarrow>
          answer_step e parsed source refreshToken n posted w
      | _ \<Rightarrow> cw)"

section \<open>Example environments\<close>

text \<open>
  A \<open>JSON.parse\<close> that knows the two well-formed texts of the decoder's examples (by the
  number they hold) and throws on every other text.
\<close>

definition sample_JSON_parse :: "string \<Rightarrow> nat option" where
  \<open>sample_JSON_parse s =
     (if s = ''{"a":1}'' then Some 1 else if s = ''{"b":2}'' then Some 2 else None)\<close>

text \<open>
  An environment with credentials that stay valid until \<open>9000000\<close>, a buffer of five
  minutes, fallback enabled, no moderation thresholds, a refresh endpoint that refuses
  every refresh and a streaming endpoint that is rate-limited; and a state at time \<open>1000000\<close> with nothing sent yet,
  given its token file. The examples below change single fields of them.
\<close>

definition sample_env :: env where
  "sample_env =
     \<lparr>GCP_SERVICE_ACCOUNT =
        SetTo (Inr \<lparr>cred_access_token = ''seed-token'', cred_refresh_token = ''seed-refresh'',
                    cred_expiry_date = 9000000\<rparr>),
      GEMINI_PROJECT_ID = Some ''project-1'',
      ENABLE_AUTO_MODEL_SWITCHING = Some ''true'',
      TOKEN_BUFFER_TIME = 300000,
      storage_writable = True,
      oauth_endpoint = (\<lambda>n. (50, RefreshNotOk ''invalid_grant'')),
      call_endpoint = (\<lambda>n. (10, CallResponse 500 ''unavailable'' (Inr \<lparr>cloudaicompanionProject = None\<rparr>))),
      stream_endpoint = (\<lambda>n. (100, StreamResponse 429 NoBody 0)),
      JSON_parse = (\<lambda>s. None),
      GEMINI_MODERATION_HARASSMENT_THRESHOLD = None,
      GEMINI_MODERATION_HATE_SPEECH_THRESHOLD = None,
      GEMINI_MODERATION_SEXUALLY_EXPLICIT_THRESHOLD = None,
      GEMINI_MODERATION_DANGEROUS_CONTENT_THRESHOLD = None,
      type_error_message = (\<lambda>expr. ''undefined is not an object (evaluating '' @ expr @ '')''),
      inherited_text = (\<lambda>k. ''function '' @ k @ ''() { [native code] }'')\<rparr>"

definition sample_world :: "token_file \<Rightarrow> world" where
  "sample_world file =
     \<lparr>now = 1000000, token_file = file, accessToken = None, projectId = None,
      refresh_log = [], call_log = [], stream_log = []\<rparr>"

definition fresh_token :: CachedTokenData where
  "fresh_token = \<lparr>access_token = ''cached-token'', refresh_token = Some ''cached-refresh'',
                   expiry_date = 4600000, cached_at = 900000\<rparr>"

definition stale_token :: CachedTokenData where
  "stale_token = \<lparr>access_token = ''old-token'', refresh_token = Some ''cached-refresh'',
                   expiry_date = 1100000, cached_at = 100000\<rparr>"

text \<open>
  Event texts and what the runtime's parser makes of them: an answer \<open>hi\<close> that
  finishes, with a usage whose reported total is wrong; three answers \<open>A\<close>, \<open>B\<close>,
  \<open>C\<close>, the last of which finishes; and a blocked prompt, which has a usage and no
  candidates.
\<close>

definition hello_text :: string where
  \<open>hello_text = ''{"response":{"candidates":[{"content":{"parts":[{"text":"hi"}]},''
     @ ''"finishReason":"STOP"}],"usageMetadata":{"promptTokenCount":3,"totalTokenCount":99}}}''\<close>

definition hello_response :: upstream_response where
  "hello_response =
     \<lparr>up_candidates =
        Some [\<lparr>up_parts = Some [TextPart ''hi''], up_finishReason = Some ''STOP'',
               up_groundingMetadata = None\<rparr>],
      up_usageMetadata =
        Some \<lparr>up_promptTokenCount = Some (Finite 3), up_candidatesTokenCount = None,
              up_totalTokenCount = Some (Finite 99)\<rparr>\<rparr>"

definition answer_text :: "string \<Rightarrow> string" where
  \<open>answer_text t = ''{"response":{"candidates":[{"content":{"parts":[{"text":"'' @ t @ ''"}]}}]}}''\<close>

definition last_answer_text :: string where
  \<open>last_answer_text = ''{"response":{"candidates":[{"content":{"parts":[{"text":"C"}]},''
     @ ''"finishReason":"STOP"}]}}''\<close>

definition answer_response :: "string \<Rightarrow> string option \<Rightarrow> upstream_response" where
  "answer_response t fin =
     \<lparr>up_candidates =
        Some [\<lparr>up_parts = Some [TextPart t], up_finishReason = fin, up_groundingMetadata = None\<rparr>],
      up_usageMetadata = None\<rparr>"

definition blocked_text :: string where
  \<open>blocked_text = ''{"response":{"promptFeedback":{"blockReason":"SAFETY"},''
     @ ''"usageMetadata":{"promptTokenCount":7,"totalTokenCount":7}}}''\<close>

definition blocked_response :: upstream_response where
  "blocked_response =
     \<lparr>up_candidates = None,
      up_usageMetadata =
        Some \<lparr>up_promptTokenCount = Some (Finite 7), up_candidatesTokenCount = None,
              up_totalTokenCount = Some (Finite 7)\<rparr>\<rparr>"

text \<open>
  An event that has a candidate and a usage whose counts add up to \<open>2 ^ 53 + 1\<close>,
  which is no double.
\<close>

definition big_response :: upstream_response where
  "big_response =
     \<lparr>up_candidates =
        Some [\<lparr>up_parts = Some [TextPart ''hi''], up_finishReason = None,
               up_groundingMetadata = None\<rparr>],
      up_usageMetadata =
        Some \<lparr>up_promptTokenCount = Some (Finite 9007199254740992),
              up_candidatesTokenCount = Some (Finite 1),
              up_totalTokenCount = None\<rparr>\<rparr>"

definition sample_events :: "string \<Rightarrow> event option" where
  "sample_events s =
     (if s = hello_text then Some (Payload (Some hello_response))
      else if s = answer_text ''A'' then Some (Payload (Some (answer_response ''A'' None)))
      else if s = answer_text ''B'' then Some (Payload (Some (answer_response ''B'' None)))
      else if s = last_answer_text then Some (Payload (Some (answer_response ''C'' (Some ''STOP''))))
      else if s = blocked_text then Some (Payload (Some blocked_response))
      else None)"

text \<open>The reads of three response bodies, each event on a \<^verbatim>\<open>data:\<close> line and a blank line.\<close>

definition hello_reads :: "string list" where
  "hello_reads = [''data: '' @ hello_text, [CHR 0x0A, CHR 0x0A]]"

definition answer_reads :: "string list" where
  "answer_reads =
     [''data: '' @ answer_text ''A'' @ [CHR 0x0A, CHR 0x0A] @ ''data: '' @ answer_text ''B'',
      [CHR 0x0A, CHR 0x0A] @ ''data: '' @ last_answer_text @ [CHR 0x0A, CHR 0x0A]]"

definition blocked_reads :: "string list" where
  "blocked_reads = [''data: '' @ blocked_text @ [CHR 0x0A, CHR 0x0A]]"

definition hello_chunk :: "model_value \<Rightarrow> GeminiNativeStreamChunk" where
  "hello_chunk modelId =
     \<lparr>chunk_type = ''gemini_native'',
      data = \<lparr>candidates = [\<lparr>content = \<lparr>role = ''model'', parts = [TextPart ''hi'']\<rparr>,
                             finishReason = Some ''STOP'', groundingMetadata = None\<rparr>],
              usageMetadata = Some \<lparr>promptTokenCount = Finite 3, candidatesTokenCount = Finite 0,
                                    totalTokenCount = Finite 3\<rparr>,
              modelVersion = modelId\<rparr>\<rparr>"

text \<open>
  A request with one content, and the object \<^verbatim>\<open>buildNativeStreamRequest\<close> makes of
  it for the model \<^verbatim>\<open>gemini-2.5-pro\<close> and the project of \<open>sample_env\<close>.
\<close>

definition hello_request :: GeminiNativeRequest where
  "hello_request =
     \<lparr>contents = Some [JObject [(''role'', JString ''user''),
                                 (''parts'', JArray [JObject [(''text'', JString ''hello'')]])]],
      systemInstruction = None, generationConfig = None, tools = None, toolConfig = None,
      safetySettings = None\<rparr>"

definition pro_request :: stream_request where
  "pro_request =
     \<lparr>model = Model ''gemini-2.5-pro'', project = ''project-1'',
      request = JObject [(''contents'',
                          JArray [JObject [(''role'', JString ''user''),
                                           (''parts'', JArray [JObject [(''text'', JString ''hello'')]])]])]\<rparr>"

text \<open>
  Streaming endpoints: one that answers every request with the given status and no
  body; one that answers with the given reads; and one that answers the first \<open>k\<close>
  requests as the first endpoint does and the later ones as the second does. Every
  answer comes after 100 ms, and a body takes 40 ms.
\<close>

definition always_status :: "nat \<Rightarrow> nat \<Rightarrow> nat \<times> stream_reply" where
  "always_status status n = (100, StreamResponse status NoBody 0)"

definition always_body :: "string list \<Rightarrow> nat \<Rightarrow> nat \<times> stream_reply" where
  "always_body reads n = (100, StreamResponse 200 (Body reads Done) 40)"

definition first_then :: "nat \<Rightarrow> (nat \<Rightarrow> nat \<times> stream_reply) \<Rightarrow> (nat \<Rightarrow> nat \<times> stream_reply)
    \<Rightarrow> nat \<Rightarrow> nat \<times> stream_reply" where
  "first_then k f g n = (if n < k then f n else g n)"

definition answer_chunk :: "model_value \<Rightarrow> string \<Rightarrow> string option \<Rightarrow> GeminiNativeStreamChunk" where
  "answer_chunk modelId t fin =
     \<lparr>chunk_type = ''gemini_native'',
      data = \<lparr>candidates = [\<lparr>content = \<lparr>role = ''model'', parts = [TextPart t]\<rparr>,
                             finishReason = fin, groundingMetadata = None\<rparr>],
              usageMetadata = None,
              modelVersion = modelId\<rparr>\<rparr>"

text \<open>
  As \<open>sample_env\<close>, with the parser of the sample events and the given streaming
  endpoint.
\<close>

definition streaming_env :: "(nat \<Rightarrow> nat \<times> stream_reply) \<Rightarrow> env" where
  "streaming_env endpoint = sample_env\<lparr>stream_endpoint := endpoint, JSON_parse := sample_events\<rparr>"

text \<open>
  As \<open>streaming_env\<close>, with credentials of the environment that expired long ago and a
  refresh endpoint that grants a new access token for an hour.
\<close>

definition refreshing_env :: "(nat \<Rightarrow> nat \<times> stream_reply) \<Rightarrow> env" where
  "refreshing_env endpoint =
     (streaming_env endpoint)
       \<lparr>GCP_SERVICE_ACCOUNT :=
          SetTo (Inr \<lparr>cred_access_token = ''seed-token'', cred_refresh_token = ''seed-refresh'',
                      cred_expiry_date = 0\<rparr>),
        oauth_endpoint :=
          (\<lambda>n. (50, RefreshOk \<lparr>new_access_token = ''fresh-token'', expires_in = 3600,
                                  new_refresh_token = None\<rparr>))\<rparr>"

text \<open>A state in which the cached token is fresh and has been adopted.\<close>

definition signed_in_world :: world where
  "signed_in_world = (sample_world (Stored fresh_token))\<lparr>accessToken := Some ''cached-token''\<rparr>"

section \<open>Properties of the numbers\<close>

lemma excess_bits_none: "n < 2 ^ 53 \<Longrightarrow> excess_bits n = 0"
  by (simp add: excess_bits.simps)

lemma excess_bits_more: "\<not> n < 2 ^ 53 \<Longrightarrow> excess_bits n = Suc (excess_bits (n div 2))"
  by (subst excess_bits.simps) simp

lemma nearest_none: "nearest n 0 = n"
  by (simp add: nearest_def)

text \<open>A whole number up to \<open>2 ^ 53\<close> in magnitude is a double.\<close>

lemma nearest_exact: "n \<le> 2 ^ 53 \<Longrightarrow> nearest n (excess_bits n) = n"
proof (cases "n < 2 ^ 53")
  case True
  then show ?thesis by (simp add: excess_bits_none nearest_none)
next
  case False
  assume "n \<le> 2 ^ 53"
  with False have n: "n = 2 ^ 53" by simp
  have "excess_bits n = Suc 0"
    unfolding n by (simp add: excess_bits_more excess_bits_none)
  then show ?thesis
    unfolding n by (simp add: nearest_def)
qed

lemma to_double_exact: "\<bar>x\<bar> \<le> 2 ^ 53 \<Longrightarrow> to_double x = Finite x"
proof -
  assume a: "\<bar>x\<bar> \<le> 2 ^ 53"
  then have n: "nat \<bar>x\<bar> \<le> 2 ^ 53"
    by (simp add: nat_le_iff)
  have m: "nearest (nat \<bar>x\<bar>) (excess_bits (nat \<bar>x\<bar>)) = nat \<bar>x\<bar>"
    using n by (rule nearest_exact)
  have lt: "(nat \<bar>x\<bar> :: nat) < 2 ^ 1024"
    using n by (rule le_less_trans) simp
  show ?thesis
    unfolding to_double_def Let_def m using lt by auto
qed

section \<open>Properties of the decoder\<close>

lemma dec_digit: "n < 10 \<Longrightarrow> dec n = [digit_char n]"
  by (simp add: dec.simps [of n])

lemma dec_more: "\<not> n < 10 \<Longrightarrow> dec n = dec (n div 10) @ [digit_char (n mod 10)]"
  by (simp add: dec.simps [of n])

lemma split_nl_not_Nil: "split_nl s \<noteq> []"
  by (induction s) (auto split: list.splits)

lemma split_nl_no_lf: "CHR 0x0A \<notin> set s \<Longrightarrow> split_nl s = [s]"
  by (induction s) auto

lemma split_nl_lf: "CHR 0x0A \<notin> set s \<Longrightarrow> split_nl (s @ CHR 0x0A # t) = s # split_nl t"
  by (induction s) auto

lemma last_split_nl_no_lf: "CHR 0x0A \<notin> set (last (split_nl s))"
  using split_nl_not_Nil by (induction s) (auto split: list.splits)

text \<open>Splitting a text that arrives in two pieces: the unterminated last line is carried over.\<close>

lemma split_nl_append:
  "split_nl (a @ b) = butlast (split_nl a) @ split_nl (last (split_nl a) @ b)"
proof (induction a)
  case Nil
  then show ?case by simp
next
  case (Cons c cs)
  then show ?case
    using split_nl_not_Nil [of cs] split_nl_not_Nil [of "cs @ b"]
    by (cases "split_nl cs") (auto split: list.splits)
qed

lemma process_lines_append:
  "process_lines P (xs @ ys) ob =
     (case process_lines P xs ob of (e1, ob1) \<Rightarrow>
        (case process_lines P ys ob1 of (e2, ob2) \<Rightarrow> (e1 @ e2, ob2)))"
  by (induction xs arbitrary: ob) (auto split: prod.splits)

text \<open>
  The decoder does not depend on where the reads cut the text: any sequence of reads
  decodes as the single read of their concatenation does.
\<close>

lemma read_loop_concat:
  "CHR 0x0A \<notin> set buf \<Longrightarrow>
   read_loop P idle reads fin buf ob = read_loop P idle [concat reads] fin buf ob"
proof (induction reads arbitrary: buf ob)
  case Nil
  then show ?case by (simp add: split_nl_no_lf)
next
  case (Cons v vs)
  have nl: "CHR 0x0A \<notin> set (last (split_nl (buf @ v)))"
    by (rule last_split_nl_no_lf)
  have sp: "split_nl (buf @ v @ concat vs) =
     butlast (split_nl (buf @ v)) @ split_nl (last (split_nl (buf @ v)) @ concat vs)"
    using split_nl_append [of "buf @ v" "concat vs"] by simp
  show ?case
    using Cons.IH [OF nl]
    by (simp add: sp butlast_append split_nl_not_Nil process_lines_append split: prod.splits)
qed

lemma parseSSEStream_concat:
  "parseSSEStream P idle reads fin = parseSSEStream P idle [concat reads] fin"
  unfolding parseSSEStream_def by (rule read_loop_concat) simp

lemmas sse_eval = parseSSEStream_def js_trim_def is_js_space_def startsWith_def flush_object_def

text \<open>
  Claim C4. Let \<open>parse\<close> (the runtime's \<^verbatim>\<open>JSON.parse\<close>) read the text
  \<^verbatim>\<open>{"a":1}\<close> as the value \<open>a\<close> and the text \<^verbatim>\<open>{"b":2}\<close> as the value
  \<open>b\<close>, and let it throw on \<^verbatim>\<open>{bad\<close>. Then
  the decoder, applied to the bytes \<^verbatim>\<open>data: {"a":1}\n\<close> followed by \<^verbatim>\<open>\n\<close>,
  however the reads cut them, yields exactly the one event \<open>a\<close> and ends normally;
  and applied to \<^verbatim>\<open>data: {bad\n\<close>, \<^verbatim>\<open>\n\<close>, \<^verbatim>\<open>data: {"b":2}\n\<close>,
  \<^verbatim>\<open>\n\<close> it yields exactly the one event \<open>b\<close> and ends normally: the malformed
  frame is dropped and the stream goes on.
\<close>

theorem C4_decoder_examples:
  assumes \<open>parse ''{"a":1}'' = Some a\<close>
    and \<open>parse ''{bad'' = None\<close>
    and \<open>parse ''{"b":2}'' = Some b\<close>
  shows \<open>(concat reads = ''data: {"a":1}\<newline>'' @ ''\<newline>''
            \<longrightarrow> parseSSEStream parse idleTimeoutMs reads Done = ([a], None))
       \<and> (concat reads' =
              ''data: {bad\<newline>'' @ ''\<newline>'' @ ''data: {"b":2}\<newline>'' @ ''\<newline>''
            \<longrightarrow> parseSSEStream parse idleTimeoutMs reads' Done = ([b], None))\<close>
proof (intro conjI impI)
  assume c: \<open>concat reads = ''data: {"a":1}\<newline>'' @ ''\<newline>''\<close>
  show \<open>parseSSEStream parse idleTimeoutMs reads Done = ([a], None)\<close>
    unfolding parseSSEStream_concat [of _ _ reads] c
    using assms(1) by (simp add: sse_eval)
next
  assume c: \<open>concat reads' =
    ''data: {bad\<newline>'' @ ''\<newline>'' @ ''data: {"b":2}\<newline>'' @ ''\<newline>''\<close>
  show \<open>parseSSEStream parse idleTimeoutMs reads' Done = ([b], None)\<close>
    unfolding parseSSEStream_concat [of _ _ reads'] c
    using assms(2,3) by (simp add: sse_eval)
qed

theorem C4_decoder_examples_witness:
  \<open>parseSSEStream sample_JSON_parse (Some 100000) [''data: {"a":1}\<newline>'', ''\<newline>''] Done
       = ([1], None)
   \<and> parseSSEStream sample_JSON_parse (Some 100000)
        [''data: {ba'', ''d\<newline>\<newline>da'', ''ta: {"b":2}\<newline>\<newline>''] Done
       = ([2], None)\<close>
  using C4_decoder_examples [of sample_JSON_parse 1 2
      \<open>[''data: {"a":1}\<newline>'', ''\<newline>'']\<close> \<open>Some 100000\<close>
      \<open>[''data: {ba'', ''d\<newline>\<newline>da'', ''ta: {"b":2}\<newline>\<newline>'']\<close>]
  by (simp add: sample_JSON_parse_def)

subsection \<open>A stream that goes idle\<close>

text \<open>
  When the idle timer fires, the loop sees \<open>done\<close>: the decoder flushes what is
  pending and ends as on a normal end of stream, without throwing.
\<close>

lemma reader_results_idle_end:
  "idle_timer_fires idleTimeoutMs delay \<Longrightarrow>
   snd (reader_results idleTimeoutMs timed (delay, fin)) = Done"
  by (induction timed) (auto split: prod.splits)

lemma read_loop_Done: "snd (read_loop P idle reads Done buf ob) = None"
proof (induction reads arbitrary: buf ob)
  case Nil
  then show ?case by simp
next
  case (Cons v reads)
  show ?case
    using Cons [of "last (split_nl (buf @ v))"
        "snd (process_lines P (butlast (split_nl (buf @ v))) ob)"]
    by (auto simp: Let_def split: prod.splits)
qed

lemma parseSSEStream_idle_end:
  "idle_timer_fires idleTimeoutMs delay \<Longrightarrow>
   snd (parseSSEStream_in_time P idleTimeoutMs timed (delay, fin)) = None"
  using reader_results_idle_end [of idleTimeoutMs delay timed fin]
  by (auto simp: parseSSEStream_in_time_def parseSSEStream_def read_loop_Done split: prod.splits)

text \<open>
  Claim C3, at a failing input. The idle timeout is 100000 ms. The first read brings
  one whole event after 50 ms; then no byte arrives for 100001 ms. The timer fires
  and cancels the reader, the pending read resolves with \<open>done\<close>, and the decoder, having
  yielded the one event, ends as on a normal end of stream: no idle-timeout error is
  thrown. Only a read that rejects with the string \<^verbatim>\<open>"IdleTimeout"\<close> is turned into
  that error (second conjunct), and a cancelled reader's read does not reject.
\<close>

theorem C3_idle_stream_ends_normally:
  \<open>reader_results (Some 100000) [(50, ''data: {"a":1}\<newline>\<newline>'')] (100001, Done)
       = ([''data: {"a":1}\<newline>\<newline>''], Done)
   \<and> parseSSEStream_in_time sample_JSON_parse (Some 100000)
         [(50, ''data: {"a":1}\<newline>\<newline>'')] (100001, Done)
       = ([1], None)
   \<and> parseSSEStream sample_JSON_parse (Some 100000)
         [''data: {"a":1}\<newline>\<newline>''] (ReadRejects (JsValue ''IdleTimeout''))
       = ([1], Some (JsError ''Error'' ''Stream idle timeout after 100000ms''))\<close>
  by (simp add: parseSSEStream_in_time_def idle_timer_fires_def sse_eval sample_JSON_parse_def
      idle_timeout_error_def dec_digit dec_more digit_char_def)

section \<open>Properties of the credential manager\<close>

lemma auth_from_env_fresh:
  "cred_expiry_date c - now w > TOKEN_BUFFER_TIME e \<Longrightarrow>
   auth_from_env e (Inr c) w =
     (Inr (), cacheTokenToFile e (cred_access_token c) (cred_expiry_date c)
                (Some (cred_refresh_token c)) (w\<lparr>accessToken := Some (cred_access_token c)\<rparr>))"
  by (simp add: auth_from_env_def)

text \<open>A refresh that fails has posted its request and changed nothing else but the clock.\<close>

lemma refresh_fails_world:
  "fst (refreshAndCacheToken e rt w) = Inl err \<Longrightarrow>
   snd (refreshAndCacheToken e rt w) =
     w\<lparr>refresh_log := refresh_log w @ [rt],
       now := now w + int (fst (oauth_endpoint e (length (refresh_log w))))\<rparr>"
  by (auto simp: refreshAndCacheToken_def Let_def split: prod.splits refresh_reply.splits)

text \<open>
  Claim C6, as the code has it. Let the token file hold a credential with
  \<open>expiry_date - now > TOKEN_BUFFER_TIME\<close>. If \<^verbatim>\<open>GCP_SERVICE_ACCOUNT\<close> is set,
  \<^verbatim>\<open>initializeAuth\<close> adopts the cached access token and returns, changing nothing
  else; if it is not set, \<^verbatim>\<open>initializeAuth\<close> throws (line 112) and changes nothing.
  In both cases no request goes to the refresh endpoint.
\<close>

theorem C6_fresh_cache_adopted:
  assumes "token_file w = Stored d"
    and "expiry_date d - now w > TOKEN_BUFFER_TIME e"
  shows "(GCP_SERVICE_ACCOUNT e \<noteq> NotSet \<longrightarrow>
            initializeAuth e w = (Inr (), w\<lparr>accessToken := Some (access_token d)\<rparr>))
       \<and> (GCP_SERVICE_ACCOUNT e = NotSet \<longrightarrow> (\<exists>err. initializeAuth e w = (Inl err, w)))
       \<and> refresh_log (snd (initializeAuth e w)) = refresh_log w"
  using assms
  by (cases "GCP_SERVICE_ACCOUNT e")
     (simp_all add: initializeAuth_def auth_attempt_def getTokenFromFile_def)

theorem C6_fresh_cache_adopted_witness:
  "token_file (sample_world (Stored fresh_token)) = Stored fresh_token
   \<and> expiry_date fresh_token - now (sample_world (Stored fresh_token)) > TOKEN_BUFFER_TIME sample_env
   \<and> initializeAuth sample_env (sample_world (Stored fresh_token)) =
       (Inr (), (sample_world (Stored fresh_token))\<lparr>accessToken := Some ''cached-token''\<rparr>)
   \<and> refresh_log (snd (initializeAuth sample_env (sample_world (Stored fresh_token)))) = []"
  using C6_fresh_cache_adopted [of "sample_world (Stored fresh_token)" fresh_token sample_env]
  by (simp add: sample_env_def sample_world_def fresh_token_def)

text \<open>
  The claim as the specification states it does not hold: with a fresh cached credential
  and \<^verbatim>\<open>GCP_SERVICE_ACCOUNT\<close> not set, \<^verbatim>\<open>initializeAuth\<close> throws and adopts
  nothing.
\<close>

theorem C6_counterexample:
  "token_file (sample_world (Stored fresh_token)) = Stored fresh_token
   \<and> expiry_date fresh_token - now (sample_world (Stored fresh_token))
       > TOKEN_BUFFER_TIME (sample_env\<lparr>GCP_SERVICE_ACCOUNT := NotSet\<rparr>)
   \<and> initializeAuth (sample_env\<lparr>GCP_SERVICE_ACCOUNT := NotSet\<rparr>) (sample_world (Stored fresh_token)) =
       (Inl (JsError ''Error'' (''`GCP_SERVICE_ACCOUNT` environment variable not set. ''
               @ ''Please provide OAuth2 credentials JSON.'')),
        sample_world (Stored fresh_token))
   \<and> accessToken (sample_world (Stored fresh_token)) = None"
  by (simp add: initializeAuth_def sample_env_def sample_world_def fresh_token_def)

text \<open>
  Claim C7. Let \<^verbatim>\<open>GCP_SERVICE_ACCOUNT\<close> parse to the credentials \<open>c\<close>. "Still within
  the buffer window" is read as the code tests it (line 157): the credentials are valid
  for longer than the buffer, \<open>cred_expiry_date c - now > TOKEN_BUFFER_TIME\<close>.

  First part: no cached credential can be read, or the cached one is stale and carries no
  refresh token. If the credentials of the environment are still valid at the call,
  \<^verbatim>\<open>initializeAuth\<close> returns, having adopted their access token and written them to
  the token file (the write is lost when the storage refuses it, line 260), and no
  request has gone to the refresh endpoint.

  Second part: the cached credential is stale and carries a refresh token, and the
  refresh with it fails, leaving the state \<open>w1\<close>. If the credentials of the environment
  are still valid then, \<^verbatim>\<open>initializeAuth\<close> returns in the same way, and the one
  failed request is the only one that has gone to the refresh endpoint.
\<close>

theorem C7_env_credentials_adopted:
  assumes seed: "GCP_SERVICE_ACCOUNT e = SetTo (Inr c)"
  shows "(cred_expiry_date c - now w > TOKEN_BUFFER_TIME e \<longrightarrow>
          (getTokenFromFile w = None \<or>
           (\<exists>d. getTokenFromFile w = Some d \<and> \<not> expiry_date d - now w > TOKEN_BUFFER_TIME e
                \<and> \<not> truthy (refresh_token d))) \<longrightarrow>
          (\<exists>w'. initializeAuth e w = (Inr (), w')
             \<and> accessToken w' = Some (cred_access_token c)
             \<and> token_file w' =
                 (if storage_writable e
                  then Stored \<lparr>access_token = cred_access_token c,
                               refresh_token = Some (cred_refresh_token c),
                               expiry_date = cred_expiry_date c, cached_at = now w\<rparr>
                  else token_file w)
             \<and> refresh_log w' = refresh_log w))
      \<and> (\<forall>d rt err w1.
            getTokenFromFile w = Some d \<longrightarrow> \<not> expiry_date d - now w > TOKEN_BUFFER_TIME e \<longrightarrow>
            refresh_token d = Some rt \<longrightarrow> rt \<noteq> [] \<longrightarrow>
            refreshAndCacheToken e rt w = (Inl err, w1) \<longrightarrow>
            cred_expiry_date c - now w1 > TOKEN_BUFFER_TIME e \<longrightarrow>
            (\<exists>w'. initializeAuth e w = (Inr (), w')
               \<and> accessToken w' = Some (cred_access_token c)
               \<and> token_file w' =
                   (if storage_writable e
                    then Stored \<lparr>access_token = cred_access_token c,
                                 refresh_token = Some (cred_refresh_token c),
                                 expiry_date = cred_expiry_date c, cached_at = now w1\<rparr>
                    else token_file w)
               \<and> refresh_log w' = refresh_log w @ [rt]))"
proof (intro conjI impI allI)
  assume f: "cred_expiry_date c - now w > TOKEN_BUFFER_TIME e"
    and nc: "getTokenFromFile w = None \<or>
           (\<exists>d. getTokenFromFile w = Some d \<and> \<not> expiry_date d - now w > TOKEN_BUFFER_TIME e
                \<and> \<not> truthy (refresh_token d))"
  from nc have "auth_attempt e (Inr c) w = auth_from_env e (Inr c) w"
    by (auto simp: auth_attempt_def split: option.splits)
  then have "initializeAuth e w =
            (Inr (), cacheTokenToFile e (cred_access_token c) (cred_expiry_date c)
                       (Some (cred_refresh_token c)) (w\<lparr>accessToken := Some (cred_access_token c)\<rparr>))"
    using seed f by (simp add: initializeAuth_def auth_from_env_fresh)
  then show "\<exists>w'. initializeAuth e w = (Inr (), w')
             \<and> accessToken w' = Some (cred_access_token c)
             \<and> token_file w' =
                 (if storage_writable e
                  then Stored \<lparr>access_token = cred_access_token c,
                               refresh_token = Some (cred_refresh_token c),
                               expiry_date = cred_expiry_date c, cached_at = now w\<rparr>
                  else token_file w)
             \<and> refresh_log w' = refresh_log w"
    by (simp add: cacheTokenToFile_def)
next
  fix d rt err w1
  assume a: "getTokenFromFile w = Some d" "\<not> expiry_date d - now w > TOKEN_BUFFER_TIME e"
    "refresh_token d = Some rt" "rt \<noteq> []" "refreshAndCacheToken e rt w = (Inl err, w1)"
    "cred_expiry_date c - now w1 > TOKEN_BUFFER_TIME e"
  have w1: "w1 = w\<lparr>refresh_log := refresh_log w @ [rt],
       now := now w + int (fst (oauth_endpoint e (length (refresh_log w))))\<rparr>"
    using refresh_fails_world [of e rt w err] a(5) by simp
  from a have "auth_attempt e (Inr c) w = auth_from_env e (Inr c) w1"
    by (simp add: auth_attempt_def)
  then have "initializeAuth e w =
              (Inr (), cacheTokenToFile e (cred_access_token c) (cred_expiry_date c)
                         (Some (cred_refresh_token c)) (w1\<lparr>accessToken := Some (cred_access_token c)\<rparr>))"
    using seed a(6) by (simp add: initializeAuth_def auth_from_env_fresh)
  then show "\<exists>w'. initializeAuth e w = (Inr (), w')
               \<and> accessToken w' = Some (cred_access_token c)
               \<and> token_file w' =
                   (if storage_writable e
                    then Stored \<lparr>access_token = cred_access_token c,
                                 refresh_token = Some (cred_refresh_token c),
                                 expiry_date = cred_expiry_date c, cached_at = now w1\<rparr>
                    else token_file w)
               \<and> refresh_log w' = refresh_log w @ [rt]"
    by (simp add: cacheTokenToFile_def w1)
qed

theorem C7_env_credentials_adopted_witness:
  "initializeAuth sample_env (sample_world Absent) =
     (Inr (), (sample_world Absent)
        \<lparr>accessToken := Some ''seed-token'',
          token_file := Stored \<lparr>access_token = ''seed-token'', refresh_token = Some ''seed-refresh'',
                                expiry_date = 9000000, cached_at = 1000000\<rparr>\<rparr>)
   \<and> refreshAndCacheToken sample_env ''cached-refresh'' (sample_world (Stored stale_token)) =
       (Inl (JsError ''Error'' ''Token refresh failed: invalid_grant''),
        (sample_world (Stored stale_token))\<lparr>refresh_log := [''cached-refresh''], now := 1000050\<rparr>)
   \<and> initializeAuth sample_env (sample_world (Stored stale_token)) =
     (Inr (), (sample_world (Stored stale_token))
        \<lparr>accessToken := Some ''seed-token'',
          token_file := Stored \<lparr>access_token = ''seed-token'', refresh_token = Some ''seed-refresh'',
                                expiry_date = 9000000, cached_at = 1000050\<rparr>,
          refresh_log := [''cached-refresh''], now := 1000050\<rparr>)"
  using C7_env_credentials_adopted [of sample_env
      "\<lparr>cred_access_token = ''seed-token'', cred_refresh_token = ''seed-refresh'',
        cred_expiry_date = 9000000\<rparr>" "sample_world Absent"]
    C7_env_credentials_adopted [of sample_env
      "\<lparr>cred_access_token = ''seed-token'', cred_refresh_token = ''seed-refresh'',
        cred_expiry_date = 9000000\<rparr>" "sample_world (Stored stale_token)"]
  by (simp add: sample_env_def sample_world_def stale_token_def initializeAuth_def
      auth_attempt_def auth_from_env_def getTokenFromFile_def refreshAndCacheToken_def
      cacheTokenToFile_def)

section \<open>Properties of the streaming client\<close>

subsection \<open>A retried attempt\<close>

text \<open>
  An attempt marked as a retry is its \<^verbatim>\<open>try\<close> block and nothing more: the
  \<^verbatim>\<open>catch\<close> rethrows. The block posts one request and never starts another attempt.
\<close>

lemma perform_retried:
  "performNativeStreamRequest e req m True w = try_block e req m True w"
  by (simp add: performNativeStreamRequest.simps split: prod.splits option.splits)

lemma try_block_retried:
  "try_block e req m True w =
     (let (latency, reply) = fetch_stream e (length (stream_log w));
          w1 = w\<lparr>stream_log := stream_log w @ [(req, getAccessToken w)],
                 now := now w + int latency\<rparr>
      in case reply of
           StreamFetchRejects err \<Rightarrow> (([], Some err), w1)
         | StreamResponse status body' took \<Rightarrow>
             (if \<not> response_ok status then
                (([], Some (JsError ''Error'' (''Stream request failed: '' @ dec status))), w1)
              else
                (case body' of
                   NoBody \<Rightarrow> (([], Some (JsError ''Error'' ''Response has no body'')), w1)
                 | Body reads fin \<Rightarrow>
                     (stream_chunks e m reads fin, w1\<lparr>now := now w1 + int took\<rparr>))))"
  by (simp add: try_block.simps [of e req m True w] Let_def split: prod.splits stream_reply.splits)

lemma try_block_retried_log:
  "stream_log (snd (try_block e req m True w)) = stream_log w @ [(req, getAccessToken w)]"
  by (simp add: try_block_retried Let_def
      split: prod.splits stream_reply.splits response_body.splits)

subsection \<open>The two hops of the \<^verbatim>\<open>try\<close> block\<close>

text \<open>
  Lines 439-445: on a 401 a first attempt clears the token file, authenticates again and
  hands over to an attempt with the same request, marked as a retry.
\<close>

lemma unauthorized_hop:
  assumes "fetch_stream e (length (stream_log w)) = (latency, StreamResponse 401 body' took)"
    and "initializeAuth e (clearTokenCache e
           (w\<lparr>stream_log := stream_log w @ [(req, getAccessToken w)],
              now := now w + int latency\<rparr>)) = (Inr (), w2)"
  shows "try_block e req m False w = performNativeStreamRequest e req m True w2"
  using assms by (simp add: try_block.simps [of e req m False w] response_ok_def)

text \<open>
  Lines 447-472: on a rate-limit status, with fallback enabled and a fallback model for the
  model, a first attempt yields the notice and hands over to an attempt against the
  fallback model, marked as a retry.
\<close>

lemma fallback_hop:
  assumes "fetch_stream e (length (stream_log w)) = (latency, StreamResponse status body' took)"
    and "isRateLimitStatus status" and "isEnabled e"
    and "getFallbackModel (String_of e m) = Some fallbackModel"
    and "performNativeStreamRequest e (req\<lparr>model := fallbackModel\<rparr>) fallbackModel True
           (w\<lparr>stream_log := stream_log w @ [(req, getAccessToken w)],
              now := now w + int latency\<rparr>) = ((zs, t), w2)"
  shows "try_block e req m False w =
           ((switch_notice (createSwitchNotification (String_of e m) (String_of e fallbackModel))
               fallbackModel # zs, t), w2)"
proof -
  have "status = 429 \<or> status = 503"
    using assms(2) by (simp add: isRateLimitStatus_def RATE_LIMIT_STATUS_CODES_def)
  then have "\<not> response_ok status" and "status \<noteq> 401"
    by (auto simp: response_ok_def)
  then show ?thesis
    using assms by (simp add: try_block.simps [of e req m False w])
qed

subsection \<open>The sample streams\<close>

lemmas sample_texts = hello_text_def answer_text_def last_answer_text_def blocked_text_def

lemmas chunk_eval = stream_chunks_def sample_events_def sse_eval sample_texts
  native_chunk_def native_candidate_def native_usage_def IDLE_TIMEOUT_MS_def to_double_exact

lemma hello_stream:
  "JSON_parse e = sample_events \<Longrightarrow>
   stream_chunks e m hello_reads Done = ([hello_chunk m], None)"
  by (simp add: chunk_eval hello_reads_def hello_response_def hello_chunk_def)

lemma answer_stream:
  "JSON_parse e = sample_events \<Longrightarrow>
   stream_chunks e m answer_reads Done =
     ([answer_chunk m ''A'' None, answer_chunk m ''B'' None, answer_chunk m ''C'' (Some ''STOP'')],
      None)"
  by (simp add: chunk_eval answer_reads_def answer_response_def answer_chunk_def)

lemma blocked_stream:
  "JSON_parse e = sample_events \<Longrightarrow> stream_chunks e m blocked_reads Done = ([], None)"
  by (simp add: chunk_eval blocked_reads_def blocked_response_def)

lemmas stream_eval = try_block.simps performNativeStreamRequest.simps Let_def fetch_stream_def
  CONNECTION_TIMEOUT_MS_def QUICK_FAIL_THRESHOLD_MS_def response_ok_def isRateLimitStatus_def
  RATE_LIMIT_STATUS_CODES_def isEnabled_def getFallbackModel_def AUTO_SWITCH_MODEL_MAP_def
  getAccessToken_def dec_digit dec_more digit_char_def String_of_def

lemmas auth_eval = initializeAuth_def auth_attempt_def auth_from_env_def getTokenFromFile_def
  refreshAndCacheToken_def cacheTokenToFile_def clearTokenCache_def

lemmas sample_eval = streaming_env_def refreshing_env_def sample_env_def sample_world_def
  signed_in_world_def fresh_token_def pro_request_def always_status_def always_body_def
  first_then_def

subsection \<open>The retry of the \<^verbatim>\<open>catch\<close> block\<close>

text \<open>
  Lines 510-524. When the \<^verbatim>\<open>try\<close> block of an attempt that is not marked as a
  retry throws \<open>error\<close>, leaving the state \<open>w3\<close>, and \<open>error\<close> is an
  \<open>AbortError\<close> or less than 5000 ms have passed since the attempt started, the
  \<^verbatim>\<open>catch\<close> starts one attempt with the same request and model, marked as a retry.
  That attempt posts one request; what it yields comes after what the block had yielded,
  and what it throws is thrown to the caller. This is about the \<^verbatim>\<open>catch\<close> alone:
  the block that threw may itself have run a retried attempt (lines 443 and 469).
\<close>

lemma catch_retry:
  assumes "try_block e streamRequest modelId False w = ((ys, Some error), w3)"
    and "isTimeout error \<or> now w3 - now w < 5000"
  shows "\<exists>zs t w4.
           try_block e streamRequest modelId True w3 = ((zs, t), w4)
         \<and> stream_log w4 = stream_log w3 @ [(streamRequest, getAccessToken w3)]
         \<and> performNativeStreamRequest e streamRequest modelId False w = ((ys @ zs, t), w4)"
proof -
  obtain zs t w4 where r: "try_block e streamRequest modelId True w3 = ((zs, t), w4)"
    by (metis surj_pair)
  have l: "stream_log w4 = stream_log w3 @ [(streamRequest, getAccessToken w3)]"
    using try_block_retried_log [of e streamRequest modelId w3] r by simp
  have p: "performNativeStreamRequest e streamRequest modelId True w3 = ((zs, t), w4)"
    using r by (simp add: perform_retried)
  have "performNativeStreamRequest e streamRequest modelId False w = ((ys @ zs, t), w4)"
    using assms p
    by (auto simp: performNativeStreamRequest.simps [of e streamRequest modelId False w]
        QUICK_FAIL_THRESHOLD_MS_def Let_def)
  with r l show ?thesis by blast
qed

text \<open>
  Claim C5, at a failing input. The cached token is rejected: the first request is
  answered with a 401 after 100 ms. The first attempt clears the token file, refreshes
  (50 ms) and starts the attempt marked as a retry, whose fetch fails after 100 ms (the
  connection is lost). First conjunct: that retried attempt, taken alone, throws the
  failure of its fetch. Second conjunct: inside the first attempt this failure is not
  terminal and does not reach the caller. Thrown inside the \<^verbatim>\<open>try\<close> block of
  the first attempt (the \<^verbatim>\<open>yield*\<close> of line 443), it is caught there, 250 ms
  after that attempt started; the attempt is not marked as a retry and less than 5000 ms
  have passed, so the same request is posted a third time, and the caller gets the chunk
  of the third answer and no error. The request of the first attempt has then been
  retried twice.
\<close>

theorem C5_retried_attempt_not_terminal:
  "performNativeStreamRequest
       (refreshing_env (first_then 1 (always_status 401)
          (first_then 2 (\<lambda>n. (100, StreamFetchRejects (JsError ''TypeError'' ''fetch failed'')))
             (always_body hello_reads))))
       pro_request (Model ''gemini-2.5-pro'') True
       (signed_in_world
          \<lparr>stream_log := [(pro_request, Some ''cached-token'')],
            refresh_log := [''seed-refresh''],
            accessToken := Some ''fresh-token'',
            token_file := Stored \<lparr>access_token = ''fresh-token'', refresh_token = Some ''seed-refresh'',
                                  expiry_date = 4600150, cached_at = 1000150\<rparr>,
            now := 1000150\<rparr>) =
     (([], Some (JsError ''TypeError'' ''fetch failed'')),
      signed_in_world
        \<lparr>stream_log := [(pro_request, Some ''cached-token''),
                        (pro_request, Some ''fresh-token'')],
          refresh_log := [''seed-refresh''],
          accessToken := Some ''fresh-token'',
          token_file := Stored \<lparr>access_token = ''fresh-token'', refresh_token = Some ''seed-refresh'',
                                expiry_date = 4600150, cached_at = 1000150\<rparr>,
          now := 1000250\<rparr>)
   \<and> performNativeStreamRequest
       (refreshing_env (first_then 1 (always_status 401)
          (first_then 2 (\<lambda>n. (100, StreamFetchRejects (JsError ''TypeError'' ''fetch failed'')))
             (always_body hello_reads))))
       pro_request (Model ''gemini-2.5-pro'') False signed_in_world =
     (([hello_chunk (Model ''gemini-2.5-pro'')], None),
      signed_in_world
        \<lparr>stream_log := [(pro_request, Some ''cached-token''),
                        (pro_request, Some ''fresh-token''),
                        (pro_request, Some ''fresh-token'')],
          refresh_log := [''seed-refresh''],
          accessToken := Some ''fresh-token'',
          token_file := Stored \<lparr>access_token = ''fresh-token'', refresh_token = Some ''seed-refresh'',
                                expiry_date = 4600150, cached_at = 1000150\<rparr>,
          now := 1000390\<rparr>)"
  by (simp add: stream_eval auth_eval hello_stream sample_eval)

subsection \<open>A failure of the nested attempt\<close>

text \<open>
  Claim C1, at a failing input. Fallback is enabled, the model is
  \<^verbatim>\<open>gemini-2.5-pro\<close>, whose fallback model is \<^verbatim>\<open>gemini-2.5-flash\<close>, and the
  endpoint answers within 100 ms. First conjunct: every answer is a 429. The first
  attempt yields the notice and the attempt against the fallback model fails with 429;
  that failure is not terminal: thrown inside the \<^verbatim>\<open>try\<close> block of the first
  attempt, 200 ms after its start, it is caught there and a third request is posted, for
  the original model, whose 429 is then thrown to the caller. Second conjunct: the third
  answer is a stream with one event. Then the caller gets the notice, then the chunk of
  the original model, and no error at all.
\<close>

theorem C1_second_rate_limit_not_terminal:
  "performNativeStreamRequest (streaming_env (always_status 429)) pro_request (Model ''gemini-2.5-pro'')
       False signed_in_world =
     (([switch_notice (createSwitchNotification ''gemini-2.5-pro'' ''gemini-2.5-flash'')
          (Model ''gemini-2.5-flash'')],
       Some (JsError ''Error'' ''Stream request failed: 429'')),
      signed_in_world\<lparr>stream_log := [(pro_request, Some ''cached-token''),
                                       (pro_request\<lparr>model := Model ''gemini-2.5-flash''\<rparr>, Some ''cached-token''),
                                       (pro_request, Some ''cached-token'')],
                       now := 1000300\<rparr>)
   \<and> performNativeStreamRequest
       (streaming_env (first_then 2 (always_status 429) (always_body hello_reads)))
       pro_request (Model ''gemini-2.5-pro'') False signed_in_world =
     (([switch_notice (createSwitchNotification ''gemini-2.5-pro'' ''gemini-2.5-flash'')
          (Model ''gemini-2.5-flash''),
        hello_chunk (Model ''gemini-2.5-pro'')], None),
      signed_in_world\<lparr>stream_log := [(pro_request, Some ''cached-token''),
                                       (pro_request\<lparr>model := Model ''gemini-2.5-flash''\<rparr>, Some ''cached-token''),
                                       (pro_request, Some ''cached-token'')],
                       now := 1000340\<rparr>)"
  by (simp add: stream_eval hello_stream sample_eval)

text \<open>
  Claim C2, at a failing input of the streaming path. The cached token is rejected, the
  credentials of the environment have expired, the refresh endpoint grants a new token,
  and the streaming endpoint answers every request with a 401 within 100 ms. The first
  attempt clears the token file, refreshes and retries with the new token; the 401 of that
  retried attempt is not fatal: thrown inside the \<^verbatim>\<open>try\<close> block of the first
  attempt, 250 ms after its start, it is caught there and a third request is posted,
  whose 401 is then thrown to the caller.
\<close>

theorem C2_second_401_not_fatal_when_streaming:
  "performNativeStreamRequest (refreshing_env (always_status 401)) pro_request (Model ''gemini-2.5-pro'')
       False signed_in_world =
     (([], Some (JsError ''Error'' ''Stream request failed: 401'')),
      signed_in_world
        \<lparr>stream_log := [(pro_request, Some ''cached-token''),
                        (pro_request, Some ''fresh-token''),
                        (pro_request, Some ''fresh-token'')],
          refresh_log := [''seed-refresh''],
          accessToken := Some ''fresh-token'',
          token_file := Stored \<lparr>access_token = ''fresh-token'', refresh_token = Some ''seed-refresh'',
                                expiry_date = 4600150, cached_at = 1000150\<rparr>,
          now := 1000350\<rparr>)"
  by (simp add: stream_eval auth_eval sample_eval)

subsection \<open>The usage of an emitted chunk\<close>

text \<open>
  Claim C10, as the code has it. Let a decoded event carry a usage \<open>u\<close> and
  candidates. Then the attempt yields one chunk for it (lines 482-507), which has a
  usage, whose \<open>totalTokenCount\<close> is the sum, as JavaScript adds numbers, of the
  upstream \<open>promptTokenCount\<close> and the upstream \<open>candidatesTokenCount\<close>, each
  taken as 0 when it is absent (or falsy). When the two counts are whole numbers \<open>p\<close>
  and \<open>c\<close> of a magnitude up to \<open>2 ^ 53\<close> (an absent one being 0) and so is their
  sum, this is the sum \<open>p + c\<close>. The \<open>totalTokenCount\<close> that the event reports is
  not read: with any other value \<open>t\<close> in its place the chunk is the same.
\<close>

theorem C10_total_is_recomputed:
  assumes "up_usageMetadata r = Some u" and "up_candidates r = Some cs"
  shows "\<exists>chunk m.
           native_chunk modelId (Some r) = Some chunk
         \<and> yield_chunks modelId [Payload (Some r)] = ([chunk], None)
         \<and> usageMetadata (data chunk) = Some m
         \<and> totalTokenCount m =
             js_add (or_zero (up_promptTokenCount u)) (or_zero (up_candidatesTokenCount u))
         \<and> ((up_promptTokenCount u = Some (Finite p) \<or> up_promptTokenCount u = None \<and> p = 0) \<longrightarrow>
            (up_candidatesTokenCount u = Some (Finite c) \<or> up_candidatesTokenCount u = None \<and> c = 0) \<longrightarrow>
            \<bar>p\<bar> \<le> 2 ^ 53 \<longrightarrow> \<bar>c\<bar> \<le> 2 ^ 53 \<longrightarrow> \<bar>p + c\<bar> \<le> 2 ^ 53 \<longrightarrow>
              totalTokenCount m = Finite (p + c))
         \<and> native_chunk modelId (Some (r\<lparr>up_usageMetadata := Some (u\<lparr>up_totalTokenCount := t\<rparr>)\<rparr>))
             = Some chunk"
proof -
  have exact: "(up_promptTokenCount u = Some (Finite p) \<or> up_promptTokenCount u = None \<and> p = 0) \<longrightarrow>
      (up_candidatesTokenCount u = Some (Finite c) \<or> up_candidatesTokenCount u = None \<and> c = 0) \<longrightarrow>
      \<bar>p + c\<bar> \<le> 2 ^ 53 \<longrightarrow>
        js_add (or_zero (up_promptTokenCount u)) (or_zero (up_candidatesTokenCount u)) = Finite (p + c)"
    by (auto simp: to_double_exact)
  show ?thesis
    using assms exact
    by (simp add: native_chunk_def native_usage_def)
qed

theorem C10_total_is_recomputed_witness:
  "up_usageMetadata hello_response =
       Some \<lparr>up_promptTokenCount = Some (Finite 3), up_candidatesTokenCount = None,
             up_totalTokenCount = Some (Finite 99)\<rparr>
   \<and> up_candidates hello_response =
       Some [\<lparr>up_parts = Some [TextPart ''hi''], up_finishReason = Some ''STOP'',
              up_groundingMetadata = None\<rparr>]
   \<and> yield_chunks (Model ''gemini-2.5-pro'') [Payload (Some hello_response)] =
       ([hello_chunk (Model ''gemini-2.5-pro'')], None)
   \<and> usageMetadata (data (hello_chunk (Model ''gemini-2.5-pro''))) =
       Some \<lparr>promptTokenCount = Finite 3, candidatesTokenCount = Finite 0,
             totalTokenCount = Finite (3 + 0)\<rparr>
   \<and> native_chunk (Model ''gemini-2.5-pro'')
        (Some (hello_response\<lparr>up_usageMetadata :=
           Some \<lparr>up_promptTokenCount = Some (Finite 3), up_candidatesTokenCount = None,
                 up_totalTokenCount = Some (Finite 5)\<rparr>\<rparr>))
       = Some (hello_chunk (Model ''gemini-2.5-pro''))"
  using C10_total_is_recomputed [of hello_response
      "\<lparr>up_promptTokenCount = Some (Finite 3), up_candidatesTokenCount = None,
        up_totalTokenCount = Some (Finite 99)\<rparr>"
      "[\<lparr>up_parts = Some [TextPart ''hi''], up_finishReason = Some ''STOP'',
         up_groundingMetadata = None\<rparr>]"
      "Model ''gemini-2.5-pro''" 3 0 "Some (Finite 5)"]
  by (simp add: native_chunk_def native_candidate_def native_usage_def to_double_exact
      hello_response_def hello_chunk_def)

text \<open>
  The claim as the specification states it does not hold of every event that carries a
  usage. First, an event that has a usage and no candidates (the answer to a blocked
  prompt) makes the attempt yield no chunk at all: its usage does not reach the caller.
  Second, the sum is the sum of doubles: for the counts \<open>2 ^ 53\<close> and 1 the chunk has
  the total \<open>2 ^ 53\<close>, not \<open>2 ^ 53 + 1\<close>.
\<close>

theorem C10_counterexample:
  "up_usageMetadata blocked_response =
       Some \<lparr>up_promptTokenCount = Some (Finite 7), up_candidatesTokenCount = None,
             up_totalTokenCount = Some (Finite 7)\<rparr>
   \<and> yield_chunks (Model ''gemini-2.5-pro'') [Payload (Some blocked_response)] = ([], None)
   \<and> up_usageMetadata big_response =
       Some \<lparr>up_promptTokenCount = Some (Finite 9007199254740992),
             up_candidatesTokenCount = Some (Finite 1), up_totalTokenCount = None\<rparr>
   \<and> map (\<lambda>chunk. usageMetadata (data chunk))
        (fst (yield_chunks (Model ''gemini-2.5-pro'') [Payload (Some big_response)])) =
       [Some \<lparr>promptTokenCount = Finite 9007199254740992, candidatesTokenCount = Finite 1,
               totalTokenCount = Finite 9007199254740992\<rparr>]"
  by (simp add: native_chunk_def native_candidate_def native_usage_def blocked_response_def
      big_response_def to_double_def nearest_def excess_bits_none excess_bits_more)

subsection \<open>The aggregate (\<^verbatim>\<open>getCompletionNative\<close>)\<close>

lemma last_where_Nil: "last_where P [] = None"
  by (simp add: last_where_def)

lemma last_where_snoc: "last_where P (xs @ [x]) = (if P x then x else last_where P xs)"
  by (cases "filter P xs") (simp_all add: last_where_def)

lemma add_candidate_Nil: "add_candidate [] c = [merged [c]]"
  by (simp add: add_candidate_def merged_def last_where_def Let_def)

lemma add_candidate_merged: "cs \<noteq> [] \<Longrightarrow> add_candidate [merged cs] c = [merged (cs @ [c])]"
  by (simp add: add_candidate_def merged_def last_where_snoc Let_def)

text \<open>The loop over the candidates: none so far, or the one candidate that merges them.\<close>

lemma foldl_add_candidate:
  "foldl add_candidate [] cs = (if cs = [] then [] else [merged cs])"
proof (induction cs rule: rev_induct)
  case Nil
  then show ?case by simp
next
  case (snoc c cs)
  then show ?case
    by (cases "cs = []") (simp_all add: add_candidate_Nil add_candidate_merged)
qed

lemma foldl_add_chunk:
  "all_native chunks \<Longrightarrow>
   foldl add_chunk ([], None) chunks =
     (foldl add_candidate [] (concat (map (\<lambda>c. candidates (data c)) chunks)),
      last_where (\<lambda>u. u \<noteq> None) (map (\<lambda>c. usageMetadata (data c)) chunks))"
proof (induction chunks rule: rev_induct)
  case Nil
  then show ?case by (simp add: last_where_Nil)
next
  case (snoc c chunks)
  then show ?case
    by (simp add: all_native_def add_chunk_def last_where_snoc)
qed

lemma collect_response_eq:
  assumes "all_native chunks"
  shows "collect_response modelId chunks =
     (let cs = concat (map (\<lambda>c. candidates (data c)) chunks)
      in \<lparr>candidates = (if cs = [] then [] else [merged cs]),
          usageMetadata = last_where (\<lambda>u. u \<noteq> None) (map (\<lambda>c. usageMetadata (data c)) chunks),
          modelVersion = Model modelId\<rparr>)"
  using assms by (simp add: collect_response_def foldl_add_chunk foldl_add_candidate Let_def)

text \<open>Every chunk a streaming attempt yields is marked \<^verbatim>\<open>gemini_native\<close>.\<close>

lemma all_native_append: "all_native (a @ b) = (all_native a \<and> all_native b)"
  by (simp add: all_native_def)

lemma yield_chunks_native: "all_native (fst (yield_chunks m evs))"
  by (induction m evs rule: yield_chunks.induct)
     (auto simp: all_native_def native_chunk_def split: prod.splits option.splits)

lemma yield_chunks_native': "yield_chunks m evs = (ys, t) \<Longrightarrow> all_native ys"
  using yield_chunks_native [of m evs] by simp

lemma stream_chunks_native: "stream_chunks e m reads fin = (ys, t) \<Longrightarrow> all_native ys"
  by (auto simp: stream_chunks_def split: prod.splits dest: yield_chunks_native')

lemma try_block_retried_native:
  "try_block e req m True w = ((ys, t), w') \<Longrightarrow> all_native ys"
  by (auto simp: try_block_retried Let_def all_native_def
      split: prod.splits stream_reply.splits response_body.splits if_splits
      dest: stream_chunks_native)

lemma perform_retried_native:
  "performNativeStreamRequest e req m True w = ((ys, t), w') \<Longrightarrow> all_native ys"
  by (simp add: perform_retried try_block_retried_native)

lemma try_block_first_native:
  "try_block e req m False w = ((ys, t), w') \<Longrightarrow> all_native ys"
  by (auto simp: try_block.simps [of e req m False w] Let_def all_native_def switch_notice_def
      split: prod.splits stream_reply.splits response_body.splits option.splits sum.splits if_splits
      dest: stream_chunks_native perform_retried_native)

lemma perform_first_native:
  assumes "performNativeStreamRequest e req m False w = ((ys, t), w')"
  shows "all_native ys"
proof -
  obtain ys1 t1 w3 where tb: "try_block e req m False w = ((ys1, t1), w3)"
    by (metis surj_pair)
  have n1: "all_native ys1"
    using tb by (rule try_block_first_native)
  obtain zs t2 w4 where pr: "performNativeStreamRequest e req m True w3 = ((zs, t2), w4)"
    by (metis surj_pair)
  have n2: "all_native zs"
    using pr by (rule perform_retried_native)
  have "ys = ys1 \<or> ys = ys1 @ zs"
    using assms tb pr
    by (auto simp: performNativeStreamRequest.simps [of e req m False w] Let_def
        split: option.splits if_splits)
  then show ?thesis
    using n1 n2 by (auto simp: all_native_append)
qed

text \<open>The request that \<^verbatim>\<open>buildNativeStreamRequest\<close> makes of the sample request.\<close>

lemmas build_eval = buildNativeStreamRequest_def build_generationConfig_def
  convertContentsToNativeFormat_def convert_content_def sanitized_tools_def safety_settings_def
  createSafetySettings_def safety_setting_def renamed_def part_key_def has_entry_def

lemma build_hello:
  "GEMINI_MODERATION_HARASSMENT_THRESHOLD e = None \<Longrightarrow>
   GEMINI_MODERATION_HATE_SPEECH_THRESHOLD e = None \<Longrightarrow>
   GEMINI_MODERATION_SEXUALLY_EXPLICIT_THRESHOLD e = None \<Longrightarrow>
   GEMINI_MODERATION_DANGEROUS_CONTENT_THRESHOLD e = None \<Longrightarrow>
   buildNativeStreamRequest e ''gemini-2.5-pro'' ''project-1'' hello_request = Inr pro_request"
  by (simp add: build_eval hello_request_def pro_request_def)

text \<open>
  Claim C9, as the code has it. \<^verbatim>\<open>getCompletionNative\<close> is compared with
  \<^verbatim>\<open>streamContentNative\<close>, the streaming operation, run on the same model and
  request in the same state. When the streaming operation throws, so does
  \<^verbatim>\<open>getCompletionNative\<close>, the same error. When it ends without error, having
  yielded \<open>chunks\<close>, \<^verbatim>\<open>getCompletionNative\<close> returns the following response,
  where \<open>cs\<close> are the candidates of all these chunks in their order of arrival: it has
  no candidate when \<open>cs\<close> is empty, and otherwise exactly one candidate, whose parts
  are the parts of \<open>cs\<close> concatenated in that order, whose \<open>finishReason\<close> is the
  last truthy one seen in \<open>cs\<close> and whose \<open>groundingMetadata\<close> is the last one seen
  in \<open>cs\<close>; its \<open>usageMetadata\<close> is the last one seen among the chunks; and its
  \<open>modelVersion\<close> is the requested model. Both leave the same state.
\<close>

theorem C9_aggregate:
  "getCompletionNative e modelId request' w =
     (case streamContentNative e modelId request' w of
        ((chunks, Some err), w') \<Rightarrow> (Inl err, w')
      | ((chunks, None), w') \<Rightarrow>
          (Inr (let cs = concat (map (\<lambda>c. candidates (data c)) chunks)
                in \<lparr>candidates =
                      (if cs = [] then []
                       else [\<lparr>content = \<lparr>role = ''model'',
                                           parts = concat (map (\<lambda>c. parts (content c)) cs)\<rparr>,
                              finishReason = last_where truthy (map finishReason cs),
                              groundingMetadata =
                                last_where (\<lambda>g. g \<noteq> None) (map groundingMetadata cs)\<rparr>]),
                    usageMetadata =
                      last_where (\<lambda>u. u \<noteq> None) (map (\<lambda>c. usageMetadata (data c)) chunks),
                    modelVersion = Model modelId\<rparr>),
           w'))"
proof -
  obtain r1 w1 where a: "initializeAuth e w = (r1, w1)"
    by (metis surj_pair)
  show ?thesis
  proof (cases r1)
    case (Inl err)
    then show ?thesis
      using a by (simp add: getCompletionNative_def streamContentNative_def)
  next
    case auth: (Inr u)
    obtain r2 w2 where d: "discoverProjectId e w1 = (r2, w2)"
      by (metis surj_pair)
    show ?thesis
    proof (cases r2)
      case (Inl err)
      then show ?thesis
        using a auth d by (simp add: getCompletionNative_def streamContentNative_def)
    next
      case project: (Inr pid)
      show ?thesis
      proof (cases "buildNativeStreamRequest e modelId pid request'")
        case (Inl err)
        then show ?thesis
          using a auth d project by (simp add: getCompletionNative_def streamContentNative_def)
      next
        case built: (Inr streamRequest)
        obtain chunks t w3 where
          p: "performNativeStreamRequest e streamRequest (Model modelId) False w2 = ((chunks, t), w3)"
          by (metis surj_pair)
        have s: "streamContentNative e modelId request' w = ((chunks, t), w3)"
          using a auth d project built p by (simp add: streamContentNative_def)
        have g: "getCompletionNative e modelId request' w =
            (case t of Some err \<Rightarrow> (Inl err, w3)
             | None \<Rightarrow> (Inr (collect_response modelId chunks), w3))"
          using a auth d project built p
          by (simp add: getCompletionNative_def split: option.splits)
        have "all_native chunks"
          using p by (rule perform_first_native)
        then have c: "collect_response modelId chunks =
            (let cs = concat (map (\<lambda>c. candidates (data c)) chunks)
             in \<lparr>candidates = (if cs = [] then [] else [merged cs]),
                 usageMetadata =
                   last_where (\<lambda>u. u \<noteq> None) (map (\<lambda>c. usageMetadata (data c)) chunks),
                 modelVersion = Model modelId\<rparr>)"
          by (rule collect_response_eq)
        show ?thesis
          unfolding g s c by (cases t) (simp_all add: merged_def Let_def)
      qed
    qed
  qed
qed

lemmas aggregate_eval = getCompletionNative_def streamContentNative_def discoverProjectId_def

text \<open>
  Three events, each with one text part, the last of which finishes: the parts are the
  three texts in their order of arrival, and the finish reason is the last one.
\<close>

theorem C9_aggregate_witness:
  "streamContentNative (streaming_env (always_body answer_reads)) ''gemini-2.5-pro'' hello_request
       (sample_world (Stored fresh_token)) =
     (([answer_chunk (Model ''gemini-2.5-pro'') ''A'' None,
        answer_chunk (Model ''gemini-2.5-pro'') ''B'' None,
        answer_chunk (Model ''gemini-2.5-pro'') ''C'' (Some ''STOP'')], None),
      signed_in_world\<lparr>stream_log := [(pro_request, Some ''cached-token'')], now := 1000140\<rparr>)
   \<and> getCompletionNative (streaming_env (always_body answer_reads)) ''gemini-2.5-pro'' hello_request
       (sample_world (Stored fresh_token)) =
     (Inr \<lparr>candidates =
             [\<lparr>content = \<lparr>role = ''model'', parts = [TextPart ''A'', TextPart ''B'', TextPart ''C'']\<rparr>,
               finishReason = Some ''STOP'', groundingMetadata = None\<rparr>],
           usageMetadata = None, modelVersion = Model ''gemini-2.5-pro''\<rparr>,
      signed_in_world\<lparr>stream_log := [(pro_request, Some ''cached-token'')], now := 1000140\<rparr>)"
proof -
  have s: "streamContentNative (streaming_env (always_body answer_reads)) ''gemini-2.5-pro''
       hello_request (sample_world (Stored fresh_token)) =
     (([answer_chunk (Model ''gemini-2.5-pro'') ''A'' None,
        answer_chunk (Model ''gemini-2.5-pro'') ''B'' None,
        answer_chunk (Model ''gemini-2.5-pro'') ''C'' (Some ''STOP'')], None),
      signed_in_world\<lparr>stream_log := [(pro_request, Some ''cached-token'')], now := 1000140\<rparr>)"
    by (simp add: aggregate_eval build_hello stream_eval auth_eval answer_stream sample_eval)
  show ?thesis
    using C9_aggregate [of "streaming_env (always_body answer_reads)" "''gemini-2.5-pro''"
        hello_request "sample_world (Stored fresh_token)"]
    by (simp add: s answer_chunk_def last_where_def)
qed

text \<open>
  The claim as the specification states it does not hold: the answer to a blocked prompt
  is one event that has a usage and no candidates; the attempt yields no chunk for it, and
  \<^verbatim>\<open>getCompletionNative\<close> returns a response with no candidate (and no usage), not
  with one.
\<close>

theorem C9_counterexample:
  "streamContentNative (streaming_env (always_body blocked_reads)) ''gemini-2.5-pro'' hello_request
       (sample_world (Stored fresh_token)) =
     (([], None),
      signed_in_world\<lparr>stream_log := [(pro_request, Some ''cached-token'')], now := 1000140\<rparr>)
   \<and> getCompletionNative (streaming_env (always_body blocked_reads)) ''gemini-2.5-pro'' hello_request
       (sample_world (Stored fresh_token)) =
     (Inr \<lparr>candidates = [], usageMetadata = None, modelVersion = Model ''gemini-2.5-pro''\<rparr>,
      signed_in_world\<lparr>stream_log := [(pro_request, Some ''cached-token'')], now := 1000140\<rparr>)"
  by (simp add: aggregate_eval build_hello stream_eval auth_eval blocked_stream sample_eval
      collect_response_def)

section \<open>Properties of overlapping calls\<close>

lemmas step_eval = run_def step_def start_def advance_def file_step_def env_step_def
  answer_step_def post_refresh_def auth_failed_def outstanding_def

subsection \<open>A call that runs alone\<close>

text \<open>
  A call that runs alone goes through its steps as \<^verbatim>\<open>initializeAuth\<close> does in one
  go: four steps are enough, and they end in what \<^verbatim>\<open>initializeAuth\<close> returns or
  throws and in the state it leaves.
\<close>

lemma answer_env:
  "answer_step e parsed OfEnv rt (length (refresh_log w)) (now w) (w\<lparr>refresh_log := refresh_log w @ [rt]\<rparr>)
     = (Returned (rethrown (fst (refreshAndCacheToken e rt w))), snd (refreshAndCacheToken e rt w))"
  by (simp add: answer_step_def refreshAndCacheToken_def rethrown_def auth_failed_def Let_def cacheTokenToFile_def max_def
      split: prod.splits refresh_reply.splits)

lemma env_step_settle:
  "settle e parsed (env_step e parsed w) =
     (Returned (rethrown (fst (auth_from_env e parsed w))), snd (auth_from_env e parsed w))"
  by (simp add: settle_def env_step_def auth_from_env_def post_refresh_def answer_env rethrown_def
      split: sum.splits)

lemma answer_cache:
  "answer_step e parsed OfCache rt (length (refresh_log w)) (now w) (w\<lparr>refresh_log := refresh_log w @ [rt]\<rparr>)
     = (case refreshAndCacheToken e rt w of
          (Inr u, w') \<Rightarrow> (Returned (Inr u), w')
        | (Inl err, w') \<Rightarrow> env_step e parsed w')"
  by (simp add: answer_step_def refreshAndCacheToken_def Let_def cacheTokenToFile_def max_def
      split: prod.splits refresh_reply.splits)

lemma settle_Returned: "settle e parsed (Returned r, w) = (Returned r, w)"
  by (simp add: settle_def)

lemma settle_Refreshing:
  "settle e parsed (Refreshing source rt n posted, w) = answer_step e parsed source rt n posted w"
  by (simp add: settle_def)

lemma env_step_settle2:
  "settle e parsed (settle e parsed (env_step e parsed w)) =
     (Returned (rethrown (fst (auth_from_env e parsed w))), snd (auth_from_env e parsed w))"
  by (simp add: env_step_settle settle_Returned)

lemma file_step_settle:
  "settle e parsed (settle e parsed (file_step e parsed w)) =
     (Returned (rethrown (fst (auth_attempt e parsed w))), snd (auth_attempt e parsed w))"
proof (cases "getTokenFromFile w")
  case None
  then show ?thesis
    by (simp add: file_step_def auth_attempt_def env_step_settle2)
next
  case (Some d)
  show ?thesis
  proof (cases "expiry_date d - now w > TOKEN_BUFFER_TIME e")
    case True
    then show ?thesis
      using Some by (simp add: file_step_def auth_attempt_def settle_Returned rethrown_def)
  next
    case stale: False
    show ?thesis
    proof (cases "truthy (refresh_token d)")
      case False
      then show ?thesis
        using Some stale
        by (cases "refresh_token d") (simp_all add: file_step_def auth_attempt_def env_step_settle2)
    next
      case True
      then obtain rt where rt: "refresh_token d = Some rt" "rt \<noteq> []"
        by (cases "refresh_token d") auto
      obtain r w' where R: "refreshAndCacheToken e rt w = (r, w')"
        by (metis surj_pair)
      show ?thesis
      proof (cases r)
        case (Inl err)
        then show ?thesis
          using Some stale rt R
          by (simp add: file_step_def auth_attempt_def post_refresh_def settle_Refreshing
              answer_cache env_step_settle)
      next
        case (Inr u)
        then show ?thesis
          using Some stale rt R
          by (simp add: file_step_def auth_attempt_def post_refresh_def settle_Refreshing
              answer_cache settle_Returned rethrown_def)
      qed
    qed
  qed
qed

lemma solo_call:
  "run e [0, 0, 0, 0] (start w 1) =
     \<lparr>shared = snd (initializeAuth e w), calls = [Returned (fst (initializeAuth e w))]\<rparr>"
proof (cases "GCP_SERVICE_ACCOUNT e")
  case NotSet
  then show ?thesis
    by (simp add: run_def step_def start_def advance_def initializeAuth_def)
next
  case (SetTo parsed)
  have adv: "\<And>c w. advance e c w =
       (case c of NotStarted \<Rightarrow> (ReadingFile, w) | ReadingFile \<Rightarrow> file_step e parsed w
        | _ \<Rightarrow> settle e parsed (c, w))"
    using SetTo by (auto simp: advance_def settle_def split: call_state.splits)
  obtain c1 w1 where f: "file_step e parsed w = (c1, w1)"
    by (metis surj_pair)
  have c1: "c1 \<noteq> NotStarted" "c1 \<noteq> ReadingFile"
    using f by (auto simp: file_step_def env_step_def post_refresh_def
        split: option.splits if_splits sum.splits)
  obtain c2 w2 where s1: "settle e parsed (c1, w1) = (c2, w2)"
    by (metis surj_pair)
  have c2: "c2 \<noteq> NotStarted" "c2 \<noteq> ReadingFile"
    using s1 c1
    by (auto simp: settle_def answer_step_def env_step_def post_refresh_def Let_def
        split: call_state.splits prod.splits refresh_reply.splits refresh_source.splits
          sum.splits if_splits)
  have fin: "settle e parsed (c2, w2) =
      (Returned (rethrown (fst (auth_attempt e parsed w))), snd (auth_attempt e parsed w))"
    using file_step_settle [of e parsed w] f s1 by simp
  have ia: "initializeAuth e w =
      (rethrown (fst (auth_attempt e parsed w)), snd (auth_attempt e parsed w))"
    using SetTo
    by (simp add: initializeAuth_def rethrown_def auth_failed_def split: prod.splits sum.splits)
  have a1: "advance e c1 w1 = (c2, w2)"
    using c1 s1 by (cases c1) (simp_all add: adv)
  have a2: "advance e c2 w2 =
      (Returned (rethrown (fst (auth_attempt e parsed w))), snd (auth_attempt e parsed w))"
    using c2 fin by (cases c2) (simp_all add: adv)
  show ?thesis
    by (simp add: run_def step_def start_def adv [of NotStarted] adv [of ReadingFile] f a1 a2 ia)
qed

subsection \<open>The refresh requests of overlapping calls\<close>

lemma cacheTokenToFile_refresh_log:
  "refresh_log (cacheTokenToFile e t x r w) = refresh_log w"
  by (simp add: cacheTokenToFile_def)

lemma env_step_may_post:
  "env_step e parsed w = (c', w') \<Longrightarrow>
   length (refresh_log w') + may_post c' \<le> length (refresh_log w) + 1"
  by (auto simp: env_step_def post_refresh_def cacheTokenToFile_refresh_log
      split: sum.splits if_splits)

lemma file_step_may_post:
  "file_step e parsed w = (c', w') \<Longrightarrow>
   length (refresh_log w') + may_post c' \<le> length (refresh_log w) + 2"
  by (auto simp: file_step_def post_refresh_def
      split: option.splits if_splits dest: env_step_may_post)

lemma answer_step_may_post:
  "answer_step e parsed source rt n posted w = (c', w') \<Longrightarrow>
   length (refresh_log w') + may_post c' \<le>
     length (refresh_log w) + may_post (Refreshing source rt n posted)"
  by (cases source)
     (auto simp: answer_step_def Let_def cacheTokenToFile_refresh_log
       split: prod.splits refresh_reply.splits dest: env_step_may_post)

lemma advance_may_post:
  "advance e c w = (c', w') \<Longrightarrow>
   length (refresh_log w') + may_post c' \<le> length (refresh_log w) + may_post c"
  by (cases "GCP_SERVICE_ACCOUNT e"; cases c)
     (auto simp: advance_def dest: file_step_may_post answer_step_may_post)

lemma sum_list_may_post_update:
  "i < length cs \<Longrightarrow>
   sum_list (map may_post (cs[i := c])) + may_post (cs ! i) = sum_list (map may_post cs) + may_post c"
proof (induction cs arbitrary: i)
  case Nil
  then show ?case by simp
next
  case (Cons a cs)
  then show ?case by (cases i) auto
qed

lemma step_may_post:
  "length (refresh_log (shared (step e sys i))) + sum_list (map may_post (calls (step e sys i)))
     \<le> length (refresh_log (shared sys)) + sum_list (map may_post (calls sys))"
proof (cases "i < length (calls sys)")
  case False
  then show ?thesis by (simp add: step_def)
next
  case True
  obtain c w where a: "advance e (calls sys ! i) (shared sys) = (c, w)"
    by (metis surj_pair)
  have "length (refresh_log w) + may_post c
      \<le> length (refresh_log (shared sys)) + may_post (calls sys ! i)"
    using a by (rule advance_may_post)
  moreover have "sum_list (map may_post ((calls sys)[i := c])) + may_post (calls sys ! i)
      = sum_list (map may_post (calls sys)) + may_post c"
    using True by (rule sum_list_may_post_update)
  ultimately show ?thesis
    using True a by (simp add: step_def)
qed

lemma step_calls_length: "length (calls (step e sys i)) = length (calls sys)"
  by (simp add: step_def split: prod.splits)

lemma run_snoc: "run e (schedule @ [i]) sys = step e (run e schedule sys) i"
  by (simp add: run_def)

lemma run_calls_length: "length (calls (run e schedule sys)) = length (calls sys)"
  by (induction schedule rule: rev_induct) (simp_all add: run_def step_calls_length)

lemma run_may_post:
  "length (refresh_log (shared (run e schedule sys))) + sum_list (map may_post (calls (run e schedule sys)))
     \<le> length (refresh_log (shared sys)) + sum_list (map may_post (calls sys))"
proof (induction schedule rule: rev_induct)
  case Nil
  then show ?case by (simp add: run_def)
next
  case (snoc i schedule)
  show ?case
    using snoc step_may_post [of e "run e schedule sys" i]
    by (simp add: run_snoc)
qed

lemma run_append: "run e (a @ b) sys = run e b (run e a sys)"
  by (simp add: run_def)

text \<open>
  At most one request per call is outstanding, and at most two are posted by a call.
\<close>

lemma run_bounds:
  "outstanding (run e schedule (start w n)) \<le> n
   \<and> length (refresh_log (shared (run e schedule (start w n)))) \<le> length (refresh_log w) + 2 * n"
proof
  have "outstanding (run e schedule (start w n)) \<le> length (calls (run e schedule (start w n)))"
    by (simp add: outstanding_def)
  then show "outstanding (run e schedule (start w n)) \<le> n"
    by (simp add: run_calls_length start_def)
  have "sum_list (map may_post (calls (start w n))) = 2 * n"
    by (simp add: start_def sum_list_replicate)
  then show "length (refresh_log (shared (run e schedule (start w n)))) \<le> length (refresh_log w) + 2 * n"
    using run_may_post [of e schedule "start w n"] by (simp add: start_def)
qed

subsection \<open>A call does not wait for another call's refresh\<close>

text \<open>
  A call that has read the token file and found no fresh credential posts its own
  refresh request at its next step, whatever the places of the other calls are: the step
  reads the token file and the clock, and no other call's place.
\<close>

lemma filter_refreshing_update:
  "i < length cs \<Longrightarrow> \<not> is_refreshing (cs ! i) \<Longrightarrow>
   length (filter is_refreshing (cs[i := c])) =
     length (filter is_refreshing cs) + (if is_refreshing c then 1 else 0)"
proof (induction cs arbitrary: i)
  case Nil
  then show ?case by simp
next
  case (Cons a cs)
  then show ?case by (cases i) auto
qed

lemma step_ReadingFile:
  assumes "GCP_SERVICE_ACCOUNT e = SetTo parsed" and "i < length (calls sys)"
    and "calls sys ! i = ReadingFile"
    and "file_step e parsed (shared sys) = post_refresh source rt (shared sys)"
  shows "step e sys i =
           \<lparr>shared = (shared sys)\<lparr>refresh_log := refresh_log (shared sys) @ [rt]\<rparr>,
            calls = (calls sys)[i := Refreshing source rt (length (refresh_log (shared sys)))
                                      (now (shared sys))]\<rparr>"
    and "outstanding (step e sys i) = outstanding sys + 1"
proof -
  show s: "step e sys i =
           \<lparr>shared = (shared sys)\<lparr>refresh_log := refresh_log (shared sys) @ [rt]\<rparr>,
            calls = (calls sys)[i := Refreshing source rt (length (refresh_log (shared sys)))
                                      (now (shared sys))]\<rparr>"
    using assms by (simp add: step_def advance_def post_refresh_def)
  show "outstanding (step e sys i) = outstanding sys + 1"
    unfolding s using assms(2,3) by (simp add: outstanding_def filter_refreshing_update)
qed

lemma file_step_cache:
  assumes "getTokenFromFile w = Some d" and "\<not> expiry_date d - now w > TOKEN_BUFFER_TIME e"
    and "refresh_token d = Some rt" and "rt \<noteq> []"
  shows "file_step e parsed w = post_refresh OfCache rt w"
  using assms by (simp add: file_step_def)

lemma file_step_seed:
  assumes "getTokenFromFile w = None \<or>
           (\<exists>d. getTokenFromFile w = Some d \<and> \<not> expiry_date d - now w > TOKEN_BUFFER_TIME e
                \<and> \<not> truthy (refresh_token d))"
    and "\<not> cred_expiry_date c - now w > TOKEN_BUFFER_TIME e"
  shows "file_step e (Inr c) w = post_refresh OfEnv (cred_refresh_token c) w"
  using assms by (auto simp: file_step_def env_step_def split: option.splits)

lemma file_step_log:
  "file_step e parsed w = post_refresh source rt w \<Longrightarrow>
   file_step e parsed (w\<lparr>refresh_log := l\<rparr>) = post_refresh source rt (w\<lparr>refresh_log := l\<rparr>)"
  by (auto simp: file_step_def env_step_def post_refresh_def getTokenFromFile_def cacheTokenToFile_def
      split: option.splits if_splits sum.splits token_file.splits)

lemma all_started:
  assumes "GCP_SERVICE_ACCOUNT e = SetTo parsed"
  shows "k \<le> n \<Longrightarrow> run e [0..<k] (start w n) =
           \<lparr>shared = w, calls = replicate k ReadingFile @ replicate (n - k) NotStarted\<rparr>"
proof (induction k)
  case 0
  then show ?case by (simp add: run_def start_def)
next
  case (Suc k)
  then have k: "k < n" by simp
  have r: "replicate (n - k) NotStarted = NotStarted # replicate (n - Suc k) NotStarted"
    using k by (metis Suc_diff_Suc replicate_Suc)
  show ?case
    using Suc k assms
    by (simp add: run_snoc step_def advance_def r nth_append list_update_append
        replicate_append_same)
qed

lemma all_posted:
  assumes "GCP_SERVICE_ACCOUNT e = SetTo parsed"
    and "file_step e parsed w = post_refresh source rt w"
  shows "k \<le> n \<Longrightarrow> run e [0..<k] \<lparr>shared = w, calls = replicate n ReadingFile\<rparr> =
           \<lparr>shared = w\<lparr>refresh_log := refresh_log w @ replicate k rt\<rparr>,
            calls = map (\<lambda>j. Refreshing source rt (length (refresh_log w) + j) (now w)) [0..<k]
                    @ replicate (n - k) ReadingFile\<rparr>"
proof (induction k)
  case 0
  then show ?case by (simp add: run_def)
next
  case (Suc k)
  then have k: "k < n" by simp
  have r: "replicate (n - k) ReadingFile = ReadingFile # replicate (n - Suc k) ReadingFile"
    using k by (metis Suc_diff_Suc replicate_Suc)
  have f: "file_step e parsed (w\<lparr>refresh_log := refresh_log w @ replicate k rt\<rparr>) =
      post_refresh source rt (w\<lparr>refresh_log := refresh_log w @ replicate k rt\<rparr>)"
    using assms(2) by (rule file_step_log)
  show ?case
    using Suc k assms(1)
    by (simp add: run_snoc step_def advance_def r nth_append list_update_append f post_refresh_def
        replicate_append_same)
qed

lemma overlapping_calls:
  assumes "GCP_SERVICE_ACCOUNT e = SetTo parsed"
    and "file_step e parsed w = post_refresh source rt w"
  shows "run e ([0..<n] @ [0..<n]) (start w n) =
           \<lparr>shared = w\<lparr>refresh_log := refresh_log w @ replicate n rt\<rparr>,
            calls = map (\<lambda>j. Refreshing source rt (length (refresh_log w) + j) (now w)) [0..<n]\<rparr>"
  using all_started [OF assms(1), of n n w] all_posted [OF assms, of n n]
  by (simp add: run_append)

lemma outstanding_all:
  "outstanding \<lparr>shared = w', calls = map (\<lambda>j. Refreshing source rt (f j) t) [0..<n]\<rparr> = n"
  by (simp add: outstanding_def filter_map o_def)

text \<open>
  Claim C8, as the code has it. \<^verbatim>\<open>initializeAuth\<close> holds no refresh in progress
  that another call could wait for. With \<^verbatim>\<open>GCP_SERVICE_ACCOUNT\<close> set:

  \<^item> In any state \<open>sys\<close> of overlapping calls, whatever the other calls are doing (some
    may be waiting for the answer to their refresh request), a call that has read a stale
    cached credential with a refresh token \<open>rt\<close> posts its own refresh request with
    \<open>rt\<close> at its next step, and one more request is outstanding.

  \<^item> Likewise a call that has found no cached credential, or a stale one without a
    refresh token, while the credentials \<open>c\<close> of the environment are stale: it posts
    its own refresh request with the refresh token of \<open>c\<close>.

  \<^item> So of \<open>n\<close> calls that all start and then all go on, with a stale cached
    credential in the token file, each posts a request with the same refresh token, and
    \<open>n\<close> requests are outstanding at once.

  \<^item> In any order of steps of \<open>n\<close> calls, at most \<open>n\<close> requests are outstanding
    (each call awaits the answer to its request before it goes on: one at most for a call
    that runs alone), and at most \<open>2 * n\<close> are posted in all (the cached token's and
    then the environment's).
\<close>

theorem C8_refresh_not_single_flight:
  assumes "GCP_SERVICE_ACCOUNT e = SetTo parsed"
  shows
    "(i < length (calls sys) \<longrightarrow> calls sys ! i = ReadingFile \<longrightarrow>
      getTokenFromFile (shared sys) = Some d \<longrightarrow>
      \<not> expiry_date d - now (shared sys) > TOKEN_BUFFER_TIME e \<longrightarrow>
      refresh_token d = Some rt \<longrightarrow> rt \<noteq> [] \<longrightarrow>
        step e sys i =
          \<lparr>shared = (shared sys)\<lparr>refresh_log := refresh_log (shared sys) @ [rt]\<rparr>,
           calls = (calls sys)[i := Refreshing OfCache rt (length (refresh_log (shared sys)))
                                     (now (shared sys))]\<rparr>
        \<and> outstanding (step e sys i) = outstanding sys + 1)
   \<and> (i' < length (calls sys') \<longrightarrow> calls sys' ! i' = ReadingFile \<longrightarrow>
      (getTokenFromFile (shared sys') = None \<or>
       (\<exists>d'. getTokenFromFile (shared sys') = Some d'
             \<and> \<not> expiry_date d' - now (shared sys') > TOKEN_BUFFER_TIME e
             \<and> \<not> truthy (refresh_token d'))) \<longrightarrow>
      parsed = Inr c \<longrightarrow> \<not> cred_expiry_date c - now (shared sys') > TOKEN_BUFFER_TIME e \<longrightarrow>
        step e sys' i' =
          \<lparr>shared = (shared sys')\<lparr>refresh_log := refresh_log (shared sys') @ [cred_refresh_token c]\<rparr>,
           calls = (calls sys')[i' := Refreshing OfEnv (cred_refresh_token c)
                                       (length (refresh_log (shared sys'))) (now (shared sys'))]\<rparr>
        \<and> outstanding (step e sys' i') = outstanding sys' + 1)
   \<and> (getTokenFromFile w = Some d \<longrightarrow> \<not> expiry_date d - now w > TOKEN_BUFFER_TIME e \<longrightarrow>
      refresh_token d = Some rt \<longrightarrow> rt \<noteq> [] \<longrightarrow>
        outstanding (run e ([0..<n] @ [0..<n]) (start w n)) = n
        \<and> refresh_log (shared (run e ([0..<n] @ [0..<n]) (start w n))) = refresh_log w @ replicate n rt)
   \<and> outstanding (run e schedule (start w n)) \<le> n
   \<and> length (refresh_log (shared (run e schedule (start w n)))) \<le> length (refresh_log w) + 2 * n"
proof (intro conjI impI)
  assume h: "i < length (calls sys)" "calls sys ! i = ReadingFile"
    "getTokenFromFile (shared sys) = Some d"
    "\<not> expiry_date d - now (shared sys) > TOKEN_BUFFER_TIME e"
    "refresh_token d = Some rt" "rt \<noteq> []"
  have f: "file_step e parsed (shared sys) = post_refresh OfCache rt (shared sys)"
    using h(3-6) by (rule file_step_cache)
  show "step e sys i =
          \<lparr>shared = (shared sys)\<lparr>refresh_log := refresh_log (shared sys) @ [rt]\<rparr>,
           calls = (calls sys)[i := Refreshing OfCache rt (length (refresh_log (shared sys)))
                                     (now (shared sys))]\<rparr>"
    using assms h(1,2) f by (rule step_ReadingFile(1))
  show "outstanding (step e sys i) = outstanding sys + 1"
    using assms h(1,2) f by (rule step_ReadingFile(2))
next
  assume h: "i' < length (calls sys')" "calls sys' ! i' = ReadingFile"
    "getTokenFromFile (shared sys') = None \<or>
       (\<exists>d'. getTokenFromFile (shared sys') = Some d'
             \<and> \<not> expiry_date d' - now (shared sys') > TOKEN_BUFFER_TIME e
             \<and> \<not> truthy (refresh_token d'))"
    "parsed = Inr c" "\<not> cred_expiry_date c - now (shared sys') > TOKEN_BUFFER_TIME e"
  have f: "file_step e parsed (shared sys') = post_refresh OfEnv (cred_refresh_token c) (shared sys')"
    unfolding h(4) using h(3,5) by (rule file_step_seed)
  show "step e sys' i' =
          \<lparr>shared = (shared sys')\<lparr>refresh_log := refresh_log (shared sys') @ [cred_refresh_token c]\<rparr>,
           calls = (calls sys')[i' := Refreshing OfEnv (cred_refresh_token c)
                                       (length (refresh_log (shared sys'))) (now (shared sys'))]\<rparr>"
    using assms h(1,2) f by (rule step_ReadingFile(1))
  show "outstanding (step e sys' i') = outstanding sys' + 1"
    using assms h(1,2) f by (rule step_ReadingFile(2))
next
  assume h: "getTokenFromFile w = Some d" "\<not> expiry_date d - now w > TOKEN_BUFFER_TIME e"
    "refresh_token d = Some rt" "rt \<noteq> []"
  have f: "file_step e parsed w = post_refresh OfCache rt w"
    using h by (rule file_step_cache)
  show "outstanding (run e ([0..<n] @ [0..<n]) (start w n)) = n"
    by (simp add: overlapping_calls [OF assms f] outstanding_all)
  show "refresh_log (shared (run e ([0..<n] @ [0..<n]) (start w n))) = refresh_log w @ replicate n rt"
    by (simp add: overlapping_calls [OF assms f])
next
  show "outstanding (run e schedule (start w n)) \<le> n"
    using run_bounds [of e schedule w n] by simp
  show "length (refresh_log (shared (run e schedule (start w n)))) \<le> length (refresh_log w) + 2 * n"
    using run_bounds [of e schedule w n] by simp
qed

theorem C8_refresh_not_single_flight_witness:
  "GCP_SERVICE_ACCOUNT (refreshing_env (always_status 200)) =
     SetTo (Inr \<lparr>cred_access_token = ''seed-token'', cred_refresh_token = ''seed-refresh'',
                 cred_expiry_date = 0\<rparr>)
   \<and> run (refreshing_env (always_status 200)) [0, 1, 0] (start (sample_world (Stored stale_token)) 2)
       = \<lparr>shared = (sample_world (Stored stale_token))\<lparr>refresh_log := [''cached-refresh'']\<rparr>,
          calls = [Refreshing OfCache ''cached-refresh'' 0 1000000, ReadingFile]\<rparr>
   \<and> getTokenFromFile ((sample_world (Stored stale_token))\<lparr>refresh_log := [''cached-refresh'']\<rparr>)
       = Some stale_token
   \<and> \<not> expiry_date stale_token - 1000000 > TOKEN_BUFFER_TIME (refreshing_env (always_status 200))
   \<and> refresh_token stale_token = Some ''cached-refresh''
   \<and> step (refreshing_env (always_status 200))
        \<lparr>shared = (sample_world (Stored stale_token))\<lparr>refresh_log := [''cached-refresh'']\<rparr>,
          calls = [Refreshing OfCache ''cached-refresh'' 0 1000000, ReadingFile]\<rparr> 1
       = \<lparr>shared = (sample_world (Stored stale_token))
                      \<lparr>refresh_log := [''cached-refresh'', ''cached-refresh'']\<rparr>,
          calls = [Refreshing OfCache ''cached-refresh'' 0 1000000,
                   Refreshing OfCache ''cached-refresh'' 1 1000000]\<rparr>
   \<and> run (refreshing_env (always_status 200)) [0, 1, 0] (start (sample_world Absent) 2)
       = \<lparr>shared = (sample_world Absent)\<lparr>refresh_log := [''seed-refresh'']\<rparr>,
          calls = [Refreshing OfEnv ''seed-refresh'' 0 1000000, ReadingFile]\<rparr>
   \<and> step (refreshing_env (always_status 200))
        \<lparr>shared = (sample_world Absent)\<lparr>refresh_log := [''seed-refresh'']\<rparr>,
          calls = [Refreshing OfEnv ''seed-refresh'' 0 1000000, ReadingFile]\<rparr> 1
       = \<lparr>shared = (sample_world Absent)\<lparr>refresh_log := [''seed-refresh'', ''seed-refresh'']\<rparr>,
          calls = [Refreshing OfEnv ''seed-refresh'' 0 1000000,
                   Refreshing OfEnv ''seed-refresh'' 1 1000000]\<rparr>
   \<and> outstanding (run (refreshing_env (always_status 200)) ([0..<3] @ [0..<3])
        (start (sample_world (Stored stale_token)) 3)) = 3
   \<and> refresh_log (shared (run (refreshing_env (always_status 200)) ([0..<3] @ [0..<3])
        (start (sample_world (Stored stale_token)) 3)))
       = [''cached-refresh'', ''cached-refresh'', ''cached-refresh'']
   \<and> length (refresh_log (shared (run (refreshing_env (always_status 200)) [0, 1, 2, 0, 1, 2, 0, 1, 2]
        (start (sample_world (Stored stale_token)) 3)))) \<le> 6"
proof -
  have env: "GCP_SERVICE_ACCOUNT (refreshing_env (always_status 200)) =
     SetTo (Inr \<lparr>cred_access_token = ''seed-token'', cred_refresh_token = ''seed-refresh'',
                 cred_expiry_date = 0\<rparr>)"
    by (simp add: sample_eval)
  have buf: "TOKEN_BUFFER_TIME (refreshing_env (always_status 200)) = 300000"
    by (simp add: sample_eval)
  have sys: "run (refreshing_env (always_status 200)) [0, 1, 0] (start (sample_world (Stored stale_token)) 2)
       = \<lparr>shared = (sample_world (Stored stale_token))\<lparr>refresh_log := [''cached-refresh'']\<rparr>,
          calls = [Refreshing OfCache ''cached-refresh'' 0 1000000, ReadingFile]\<rparr>"
    by (simp add: step_eval getTokenFromFile_def sample_eval stale_token_def numeral_2_eq_2)
  have sys': "run (refreshing_env (always_status 200)) [0, 1, 0] (start (sample_world Absent) 2)
       = \<lparr>shared = (sample_world Absent)\<lparr>refresh_log := [''seed-refresh'']\<rparr>,
          calls = [Refreshing OfEnv ''seed-refresh'' 0 1000000, ReadingFile]\<rparr>"
    by (simp add: step_eval getTokenFromFile_def sample_eval numeral_2_eq_2)
  have tok: "getTokenFromFile ((sample_world (Stored stale_token))\<lparr>refresh_log := [''cached-refresh'']\<rparr>)
       = Some stale_token"
      "getTokenFromFile (sample_world (Stored stale_token)) = Some stale_token"
      "getTokenFromFile ((sample_world Absent)\<lparr>refresh_log := [''seed-refresh'']\<rparr>) = None"
    by (simp_all add: getTokenFromFile_def sample_world_def)
  have clock: "now (sample_world (Stored stale_token)) = 1000000" "now (sample_world Absent) = 1000000"
    "refresh_log (sample_world (Stored stale_token)) = []"
    by (simp_all add: sample_world_def)
  have st: "expiry_date stale_token = 1100000" "refresh_token stale_token = Some ''cached-refresh''"
    by (simp_all add: stale_token_def)
  note T = C8_refresh_not_single_flight [where e = "refreshing_env (always_status 200)"
      and parsed = "Inr \<lparr>cred_access_token = ''seed-token'', cred_refresh_token = ''seed-refresh'',
                 cred_expiry_date = 0\<rparr>"
      and sys = "\<lparr>shared = (sample_world (Stored stale_token))\<lparr>refresh_log := [''cached-refresh'']\<rparr>,
          calls = [Refreshing OfCache ''cached-refresh'' 0 1000000, ReadingFile]\<rparr>"
      and i = 1 and d = stale_token and rt = "''cached-refresh''"
      and sys' = "\<lparr>shared = (sample_world Absent)\<lparr>refresh_log := [''seed-refresh'']\<rparr>,
          calls = [Refreshing OfEnv ''seed-refresh'' 0 1000000, ReadingFile]\<rparr>"
      and i' = 1
      and c = "\<lparr>cred_access_token = ''seed-token'', cred_refresh_token = ''seed-refresh'',
                 cred_expiry_date = 0\<rparr>"
      and w = "sample_world (Stored stale_token)" and n = 3
      and schedule = "[0, 1, 2, 0, 1, 2, 0, 1, 2]", OF env]
  have stale: "\<not> expiry_date stale_token - 1000000 > TOKEN_BUFFER_TIME (refreshing_env (always_status 200))"
    by (simp add: buf st)
  have c1: "step (refreshing_env (always_status 200))
        \<lparr>shared = (sample_world (Stored stale_token))\<lparr>refresh_log := [''cached-refresh'']\<rparr>,
          calls = [Refreshing OfCache ''cached-refresh'' 0 1000000, ReadingFile]\<rparr> 1
       = \<lparr>shared = (sample_world (Stored stale_token))
                      \<lparr>refresh_log := [''cached-refresh'', ''cached-refresh'']\<rparr>,
          calls = [Refreshing OfCache ''cached-refresh'' 0 1000000,
                   Refreshing OfCache ''cached-refresh'' 1 1000000]\<rparr>"
    using T [THEN conjunct1] by (simp add: tok clock st buf)
  have c2: "step (refreshing_env (always_status 200))
        \<lparr>shared = (sample_world Absent)\<lparr>refresh_log := [''seed-refresh'']\<rparr>,
          calls = [Refreshing OfEnv ''seed-refresh'' 0 1000000, ReadingFile]\<rparr> 1
       = \<lparr>shared = (sample_world Absent)\<lparr>refresh_log := [''seed-refresh'', ''seed-refresh'']\<rparr>,
          calls = [Refreshing OfEnv ''seed-refresh'' 0 1000000,
                   Refreshing OfEnv ''seed-refresh'' 1 1000000]\<rparr>"
    using T [THEN conjunct2, THEN conjunct1] by (simp add: tok clock buf)
  have c3: "outstanding (run (refreshing_env (always_status 200)) ([0..<3] @ [0..<3])
        (start (sample_world (Stored stale_token)) 3)) = 3"
    "refresh_log (shared (run (refreshing_env (always_status 200)) ([0..<3] @ [0..<3])
        (start (sample_world (Stored stale_token)) 3)))
       = [''cached-refresh'', ''cached-refresh'', ''cached-refresh'']"
    using T [THEN conjunct2, THEN conjunct2, THEN conjunct1] tok(2) stale st(2)
    by (simp_all add: clock numeral_3_eq_3)
  have c4: "length (refresh_log (shared (run (refreshing_env (always_status 200)) [0, 1, 2, 0, 1, 2, 0, 1, 2]
        (start (sample_world (Stored stale_token)) 3)))) \<le> 6"
    using T [THEN conjunct2, THEN conjunct2, THEN conjunct2, THEN conjunct2] by (simp add: clock)
  show ?thesis
    using env sys tok(1) stale st(2) c1 sys' c2 c3 c4 by blast
qed

text \<open>
  The claim as the specification states it does not hold. Two calls find a stale cached
  credential with a refresh token. After the steps \<open>0, 1, 0\<close> the first call has
  posted its refresh request and waits for the answer: a refresh is in progress. The
  second call, which has read the same token file, does not wait for it: its next step
  posts a second request with the same refresh token, and two refresh requests are
  outstanding at once.
\<close>

theorem C8_counterexample:
  "calls (run (refreshing_env (always_status 200)) [0, 1, 0]
            (start (sample_world (Stored stale_token)) 2))
     = [Refreshing OfCache ''cached-refresh'' 0 1000000, ReadingFile]
   \<and> calls (run (refreshing_env (always_status 200)) [0, 1, 0, 1]
            (start (sample_world (Stored stale_token)) 2))
     = [Refreshing OfCache ''cached-refresh'' 0 1000000,
        Refreshing OfCache ''cached-refresh'' 1 1000000]
   \<and> outstanding (run (refreshing_env (always_status 200)) [0, 1, 0, 1]
            (start (sample_world (Stored stale_token)) 2)) = 2
   \<and> refresh_log (shared (run (refreshing_env (always_status 200)) [0, 1, 0, 1]
            (start (sample_world (Stored stale_token)) 2)))
     = [''cached-refresh'', ''cached-refresh'']"
  by (simp add: step_eval getTokenFromFile_def sample_eval stale_token_def numeral_2_eq_2)

end
